theory Spec2Isabelle
  imports Complex_Main "HOL-Library.Multiset"
begin

section \<open>Time and text\<close>

text \<open>
  A Python naive \<open>datetime\<close> is modelled as the number of microseconds since midnight of
  a fixed day of the proleptic calendar. Days have 86400 seconds in a naive datetime, so the
  minute field and the effect of \<open>replace\<close> are arithmetic on that number. The store keeps
  datetimes as their \<open>isoformat()\<close> text and compares the texts; for naive datetimes the
  order of the texts is the order of the instants, so the model compares the numbers.
\<close>

type_synonym datetime = int

type_synonym bytes = "char list"

definition minute :: "datetime \<Rightarrow> int" where
  "minute t = (t div 60000000) mod 60"

text \<open>\<open>t.replace(minute=m, second=0, microsecond=0)\<close>\<close>

definition replace_minute :: "datetime \<Rightarrow> int \<Rightarrow> datetime" where
  "replace_minute t m = t - t mod 3600000000 + m * 60000000"

text \<open>\<open>timedelta(minutes=5)\<close>, \<open>timedelta(hours=1)\<close>, and seconds as microseconds.\<close>

definition seconds :: "int \<Rightarrow> int" where
  "seconds n = n * 1000000"

text \<open>\<open>s.startswith(p)\<close>\<close>

definition startswith :: "string \<Rightarrow> string \<Rightarrow> bool" where
  "startswith s p = (take (length p) s = p)"

text \<open>
  Python's \<open>str.isspace\<close> on the code points below 256, and \<open>str.strip()\<close>.
\<close>

definition isspace :: "char \<Rightarrow> bool" where
  "isspace c = (let n = (of_char c :: nat) in
     (9 \<le> n \<and> n \<le> 13) \<or> (28 \<le> n \<and> n \<le> 32) \<or> n = 133 \<or> n = 160)"

definition strip :: "string \<Rightarrow> string" where
  "strip s = rev (dropWhile isspace (rev (dropWhile isspace s)))"

text \<open>
  SQLite compares TEXT values bytewise (the BINARY collation): \<open>text_less a b\<close> is
  \<open>a < b\<close> there.
\<close>

fun text_less :: "string \<Rightarrow> string \<Rightarrow> bool" where
  "text_less [] [] = False"
| "text_less [] (y # ys) = True"
| "text_less (x # xs) [] = False"
| "text_less (x # xs) (y # ys) =
     ((of_char x :: nat) < of_char y \<or> (x = y \<and> text_less xs ys))"

section \<open>The store (database.py)\<close>

text \<open>
  The tables of \<open>FocusLogDB._create_tables\<close>. The \<open>created_at\<close> columns are left out:
  no operation modelled here reads them. Rows are kept in insertion order. A nullable
  column is an \<open>option\<close>. The field \<open>screenshot_not_null\<close> records the constraint that the
  table definition puts on \<open>captures.screenshot\<close>.
\<close>

record label_row =
  label_id :: nat
  label_name :: string
  last_used :: string

record capture_row =
  capture_id :: nat
  timestamp :: datetime
  screenshot :: "bytes option"
  description :: "string option"
  classification_raw :: "string option"
  classification_error :: "string option"

record summary_row =
  summary_id :: nat
  summary_type :: string
  start_time :: datetime
  end_time :: datetime
  content :: string
  video_path :: "string option"

record store =
  labels :: "label_row list"
  captures :: "capture_row list"
  captures_labels :: "(nat \<times> nat) list"
  summaries :: "summary_row list"
  screenshot_not_null :: bool

datatype error = IntegrityError

text \<open>
  \<open>CREATE TABLE IF NOT EXISTS\<close>: a file that has no tables yet (\<open>None\<close>) gets empty
  tables with \<open>screenshot BLOB NOT NULL\<close>; existing tables are left as they are.
\<close>

definition create_tables :: "store option \<Rightarrow> store" where
  "create_tables f =
     (case f of
        None \<Rightarrow> \<lparr>labels = [], captures = [], captures_labels = [], summaries = [],
                  screenshot_not_null = True\<rparr>
      | Some d \<Rightarrow> d)"

text \<open>
  \<open>INTEGER PRIMARY KEY AUTOINCREMENT\<close>: one more than the largest id in use (no operation
  deletes a row, so that is the largest id ever used).
\<close>

definition next_id :: "nat list \<Rightarrow> nat" where
  "next_id ids = Suc (fold max ids 0)"

text \<open>
  What the two clocks show at one call of \<open>get_or_create_label\<close>: SQLite's
  \<open>CURRENT_TIMESTAMP\<close> (the default of \<open>last_used\<close> on insert) and Python's
  \<open>datetime.now().isoformat()\<close> (written on update).
\<close>

record clock =
  current_timestamp :: string
  now_isoformat :: string

definition get_or_create_label :: "store \<Rightarrow> string \<Rightarrow> clock \<Rightarrow> store \<times> nat" where
  "get_or_create_label d name clk =
     (case filter (\<lambda>r. label_name r = name) (labels d) of
        row # _ \<Rightarrow>
          (d\<lparr>labels := map (\<lambda>r. if label_id r = label_id row
                                  then r\<lparr>last_used := now_isoformat clk\<rparr> else r) (labels d)\<rparr>,
           label_id row)
      | [] \<Rightarrow>
          (let i = next_id (map label_id (labels d)) in
           (d\<lparr>labels := labels d @
                 [\<lparr>label_id = i, label_name = name, last_used = current_timestamp clk\<rparr>]\<rparr>, i)))"

text \<open>
  \<open>ORDER BY last_used DESC\<close>: insertion into a list that is descending in \<open>last_used\<close>.
  SQL leaves the order of rows with equal keys open; here the earlier row stays first.
\<close>

fun insert_desc :: "label_row \<Rightarrow> label_row list \<Rightarrow> label_row list" where
  "insert_desc r [] = [r]"
| "insert_desc r (x # xs) =
     (if text_less (last_used x) (last_used r) then r # x # xs else x # insert_desc r xs)"

definition order_by_last_used_desc :: "label_row list \<Rightarrow> label_row list" where
  "order_by_last_used_desc rs = foldl (\<lambda>acc r. insert_desc r acc) [] rs"

definition get_all_labels :: "store \<Rightarrow> string list" where
  "get_all_labels d = map label_name (order_by_last_used_desc (labels d))"

text \<open>
  The loop of \<open>save_capture\<close> over the label names; \<open>clk i\<close> is what the clocks show at
  the \<open>i\<close>-th call of \<open>get_or_create_label\<close>. \<open>INSERT OR IGNORE\<close> skips a pair that is
  already there.
\<close>

fun add_labels :: "store \<Rightarrow> nat \<Rightarrow> (nat \<Rightarrow> clock) \<Rightarrow> nat \<Rightarrow> string list \<Rightarrow> store" where
  "add_labels d cid clk i [] = d"
| "add_labels d cid clk i (l # ls) =
     (let (d1, lid) = get_or_create_label d l (clk i);
          d2 = (if (cid, lid) \<in> set (captures_labels d1) then d1
                else d1\<lparr>captures_labels := captures_labels d1 @ [(cid, lid)]\<rparr>)
      in add_labels d2 cid clk (Suc i) ls)"

text \<open>
  \<open>save_capture\<close>. The INSERT of a NULL screenshot into a NOT NULL column raises
  \<open>sqlite3.IntegrityError\<close>. \<open>now\<close> is \<open>datetime.now()\<close>, read when no timestamp is given.
\<close>

definition save_capture ::
  "store \<Rightarrow> bytes option \<Rightarrow> string option \<Rightarrow> string list option \<Rightarrow> string option \<Rightarrow>
   string option \<Rightarrow> datetime option \<Rightarrow> datetime \<Rightarrow> (nat \<Rightarrow> clock) \<Rightarrow> error + (store \<times> nat)" where
  "save_capture d shot descr lbls raw err ts now clk =
     (let t = (case ts of None \<Rightarrow> now | Some t \<Rightarrow> t) in
      if shot = None \<and> screenshot_not_null d then Inl IntegrityError
      else
        let cid = next_id (map capture_id (captures d));
            d1 = d\<lparr>captures := captures d @
                   [\<lparr>capture_id = cid, timestamp = t, screenshot = shot, description = descr,
                     classification_raw = raw, classification_error = err\<rparr>]\<rparr>;
            d2 = (case lbls of
                    None \<Rightarrow> d1
                  | Some ls \<Rightarrow> if ls = [] then d1 else add_labels d1 cid clk 0 ls)
        in Inr (d2, cid))"

definition save_summary ::
  "store \<Rightarrow> string \<Rightarrow> datetime \<Rightarrow> datetime \<Rightarrow> string \<Rightarrow> string option \<Rightarrow> store \<times> nat" where
  "save_summary d ty s e txt vp =
     (let i = next_id (map summary_id (summaries d)) in
      (d\<lparr>summaries := summaries d @
            [\<lparr>summary_id = i, summary_type = ty, start_time = s, end_time = e,
              content = txt, video_path = vp\<rparr>]\<rparr>, i))"

text \<open>
  \<open>get_latest_summary\<close>: \<open>ORDER BY end_time DESC LIMIT 1\<close>, the row of that type with the
  largest \<open>end_time\<close> (among equal ones, the one inserted last).
\<close>

definition get_latest_summary :: "store \<Rightarrow> string \<Rightarrow> summary_row option" where
  "get_latest_summary d ty =
     (case rev (sort_key end_time (filter (\<lambda>r. summary_type r = ty) (summaries d))) of
        [] \<Rightarrow> None
      | r # _ \<Rightarrow> Some r)"

text \<open>
  \<open>get_captures_since\<close>: \<open>WHERE timestamp > ? ORDER BY timestamp ASC\<close>, each row with the
  names of its labels. Without \<open>include_screenshots\<close> the dictionary has no
  \<open>screenshot\<close> key, which reads as \<open>None\<close>.
\<close>

definition labels_of :: "store \<Rightarrow> nat \<Rightarrow> string list" where
  "labels_of d cid =
     concat (map (\<lambda>l. map (\<lambda>_. label_name l)
                          (filter (\<lambda>cl. cl = (cid, label_id l)) (captures_labels d)))
                 (labels d))"

definition get_captures_since :: "store \<Rightarrow> datetime \<Rightarrow> bool \<Rightarrow> (capture_row \<times> string list) list" where
  "get_captures_since d since_time include_screenshots =
     map (\<lambda>r. (if include_screenshots then r else r\<lparr>screenshot := None\<rparr>, labels_of d (capture_id r)))
         (sort_key timestamp (filter (\<lambda>r. since_time < timestamp r) (captures d)))"

text \<open>
  \<open>get_summaries_in_range\<close>:
  \<open>WHERE summary_type = ? AND start_time >= ? AND end_time <= ? ORDER BY start_time ASC\<close>.
\<close>

definition get_summaries_in_range :: "store \<Rightarrow> string \<Rightarrow> datetime \<Rightarrow> datetime \<Rightarrow> summary_row list" where
  "get_summaries_in_range d ty s e =
     sort_key start_time
       (filter (\<lambda>r. summary_type r = ty \<and> s \<le> start_time r \<and> end_time r \<le> e) (summaries d))"

text \<open>
  \<open>cleanup_screenshots_except_thumbnails\<close>. The loop keeps the lists \<open>thumbnails\<close> and
  \<open>to_delete\<close> and \<open>current_window_start\<close> (\<open>None\<close> before the first row).
\<close>

definition window_start :: "datetime \<Rightarrow> datetime" where
  "window_start capture_time =
     (let minutes = minute capture_time;
          window_minute = (minutes div 5) * 5
      in replace_minute capture_time window_minute)"

fun group_windows ::
  "capture_row list \<Rightarrow> nat list \<Rightarrow> nat list \<Rightarrow> datetime option \<Rightarrow> nat list \<times> nat list" where
  "group_windows [] thumbnails to_delete cur = (thumbnails, to_delete)"
| "group_windows (c # cs) thumbnails to_delete cur =
     (if cur \<noteq> Some (window_start (timestamp c))
      then group_windows cs (thumbnails @ [capture_id c]) to_delete
             (Some (window_start (timestamp c)))
      else group_windows cs thumbnails (to_delete @ [capture_id c]) cur)"

text \<open>
  \<open>UPDATE captures SET screenshot = NULL WHERE id IN (...)\<close>: on a NOT NULL column the
  statement fails with \<open>sqlite3.IntegrityError\<close> as soon as it touches a row, and changes
  nothing.
\<close>

definition null_screenshots :: "store \<Rightarrow> nat list \<Rightarrow> error + store" where
  "null_screenshots d ids =
     (if screenshot_not_null d \<and> (\<exists>r \<in> set (captures d). capture_id r \<in> set ids)
      then Inl IntegrityError
      else Inr (d\<lparr>captures := map (\<lambda>r. if capture_id r \<in> set ids
                                         then r\<lparr>screenshot := None\<rparr> else r) (captures d)\<rparr>))"

record cleanup_result =
  kept :: nat
  deleted :: nat
  thumbnails :: "nat list"

definition cleanup_screenshots_except_thumbnails ::
  "store \<Rightarrow> datetime \<Rightarrow> datetime \<Rightarrow> error + (store \<times> cleanup_result)" where
  "cleanup_screenshots_except_thumbnails d s e =
     (let cs = sort_key timestamp (filter (\<lambda>r. s \<le> timestamp r \<and> timestamp r < e) (captures d)) in
      if cs = [] then Inr (d, \<lparr>kept = 0, deleted = 0, thumbnails = []\<rparr>)
      else
        let (th, to_delete) = group_windows cs [] [] None in
        if to_delete \<noteq> [] then
          (case null_screenshots d to_delete of
             Inl x \<Rightarrow> Inl x
           | Inr d1 \<Rightarrow> Inr (d1, \<lparr>kept = length th, deleted = length to_delete, thumbnails = th\<rparr>))
        else Inr (d, \<lparr>kept = length th, deleted = length to_delete, thumbnails = th\<rparr>))"

section \<open>The summarizer (summarizer.py)\<close>

text \<open>
  What the call \<open>client.responses.create\<close> gives: it raises (message and traceback
  text), or returns a response object. An attribute that the code tests with \<open>hasattr\<close>
  is an \<open>option\<close>, \<open>None\<close> when the object lacks it; \<open>output_text\<close> can also be there
  and hold Python's \<open>None\<close>.
\<close>

record content_item =
  item_type :: "string option"
  refusal :: string

record output_message =
  message_content :: "content_item list option"

record response =
  status :: "string option"
  output_list :: "output_message list option"
  output_text :: "string option option"

datatype api_outcome = Raised string string | Returned response

text \<open>The refusal test: the first content item of the first output message.\<close>

definition first_refusal :: "response \<Rightarrow> string option" where
  "first_refusal r =
     (case output_list r of
        None \<Rightarrow> None
      | Some [] \<Rightarrow> None
      | Some (first_msg # _) \<Rightarrow>
          (case message_content first_msg of
             None \<Rightarrow> None
           | Some [] \<Rightarrow> None
           | Some (first_content # _) \<Rightarrow>
               if item_type first_content = Some ''refusal''
               then Some (refusal first_content) else None))"

text \<open>
  The \<open>try\<close> block, which \<open>generate_5min_summary\<close> and \<open>generate_hourly_summary\<close> share
  word for word.
\<close>

definition read_response :: "api_outcome \<Rightarrow> string" where
  "read_response outcome =
     (case outcome of
        Raised e tb \<Rightarrow> ''Error generating summary: '' @ e @ [CHR 0x0A] @ tb
      | Returned r \<Rightarrow>
          (case status r of
             None \<Rightarrow> ''Error generating summary: Invalid response object''
           | Some st \<Rightarrow>
               if st \<noteq> ''completed'' then ''Error generating summary: Response status '' @ st
               else
                 (case first_refusal r of
                    Some why \<Rightarrow> ''Error generating summary: '' @ why
                  | None \<Rightarrow>
                      (case output_text r of
                         None \<Rightarrow> ''Error generating summary: No output_text in response''
                       | Some c \<Rightarrow>
                           (case c of
                              None \<Rightarrow> ''Error generating summary: API returned empty content''
                            | Some txt \<Rightarrow>
                                if txt = [] then ''Error generating summary: API returned empty content''
                                else strip txt)))))"

text \<open>
  The text of a summarization that ran to the final \<open>return content.strip()\<close> of
  \<open>read_response\<close>: the call returned, the status is \<open>completed\<close>, the first content item
  is no refusal, and \<open>output_text\<close> is there and not empty. \<open>None\<close> on every other path.
\<close>

definition summarized :: "api_outcome \<Rightarrow> string option" where
  "summarized outcome =
     (case outcome of
        Raised _ _ \<Rightarrow> None
      | Returned r \<Rightarrow>
          if status r = Some ''completed'' \<and> first_refusal r = None
          then (case output_text r of
                  Some (Some txt) \<Rightarrow> if txt = [] then None else Some (strip txt)
                | _ \<Rightarrow> None)
          else None)"

text \<open>
  The prompt is a function of the records, so the model takes the remote call as a function
  \<open>api\<close> from the records to its outcome.
\<close>

definition generate_5min_summary ::
  "((capture_row \<times> string list) list \<Rightarrow> api_outcome) \<Rightarrow> (capture_row \<times> string list) list \<Rightarrow> string" where
  "generate_5min_summary api caps =
     (if caps = [] then ''No activity captured in this period.''
      else read_response (api caps))"

definition generate_hourly_summary ::
  "(summary_row list \<Rightarrow> api_outcome) \<Rightarrow> summary_row list \<Rightarrow> string" where
  "generate_hourly_summary api five_min_summaries =
     (if five_min_summaries = [] then ''No activity captured in this hour.''
      else read_response (api five_min_summaries))"

section \<open>The daemon (daemon.py)\<close>

text \<open>
  The fields of \<open>FocusLogDaemon\<close> that the rollups read and write. The program runs every
  classification and every generation in a background thread, without a lock. The
  functions below are what one such thread does from its start to its end; a statement
  about several of them in a row is about an execution in which they do not interleave.
\<close>

record daemon =
  db :: store
  last_5min_summary :: datetime
  last_hourly_summary :: datetime

text \<open>
  The end of \<open>__init__\<close>: both watermarks come from the latest stored summary, or from
  \<open>datetime.now()\<close> (read once for each) when there is none.
\<close>

definition daemon_init :: "store option \<Rightarrow> datetime \<Rightarrow> datetime \<Rightarrow> daemon" where
  "daemon_init f now1 now2 =
     (let d = create_tables f in
      \<lparr>db = d,
       last_5min_summary =
         (case get_latest_summary d ''5min'' of
            Some last_5min \<Rightarrow> end_time last_5min
          | None \<Rightarrow> now1 - seconds 300),
       last_hourly_summary =
         (case get_latest_summary d ''hourly'' of
            Some last_hourly \<Rightarrow> end_time last_hourly
          | None \<Rightarrow> now2 - seconds 3600)\<rparr>)"

text \<open>The classifier's result, or an exception in the classification thread.\<close>

datatype classify_result =
  Classified "string list" string string
| ClassifyFailed string
| ClassifyRaised

definition classify_and_save ::
  "store \<Rightarrow> bytes \<Rightarrow> datetime \<Rightarrow> classify_result \<Rightarrow> (nat \<Rightarrow> clock) \<Rightarrow> store" where
  "classify_and_save d screenshot_data ts res clk =
     (case res of
        Classified lbls descr raw \<Rightarrow>
          (case save_capture d (Some screenshot_data) (Some descr) (Some lbls) (Some raw) None
                  (Some ts) ts clk of
             Inl _ \<Rightarrow> d
           | Inr (d1, _) \<Rightarrow> d1)
      | ClassifyFailed e \<Rightarrow>
          (case save_capture d (Some screenshot_data) None None None (Some e) (Some ts) ts clk of
             Inl _ \<Rightarrow> d
           | Inr (d1, _) \<Rightarrow> d1)
      | ClassifyRaised \<Rightarrow> d)"

text \<open>
  \<open>_capture_and_classify\<close>: \<open>shot\<close> is what \<open>capture()\<close> returned, \<open>None\<close> on failure. An
  exception of the store on the failure path leaves the function.
\<close>

definition capture_and_classify ::
  "store \<Rightarrow> datetime \<Rightarrow> bytes option \<Rightarrow> classify_result \<Rightarrow> (nat \<Rightarrow> clock) \<Rightarrow> error + store" where
  "capture_and_classify d now shot res clk =
     (case shot of
        None \<Rightarrow>
          (case save_capture d (Some []) None None None (Some ''Screenshot capture failed'')
                  (Some now) now clk of
             Inl e \<Rightarrow> Inl e
           | Inr (d1, _) \<Rightarrow> Inr d1)
      | Some screenshot_data \<Rightarrow> Inr (classify_and_save d screenshot_data now res clk))"

definition daemon_generate_5min_summary ::
  "((capture_row \<times> string list) list \<Rightarrow> api_outcome) \<Rightarrow> datetime \<Rightarrow> daemon \<Rightarrow> daemon" where
  "daemon_generate_5min_summary api now st =
     (let start = last_5min_summary st;
          caps = get_captures_since (db st) start False
      in if caps = [] then st\<lparr>last_5min_summary := now\<rparr>
         else
           let summary = generate_5min_summary api caps in
           if startswith summary ''Error generating summary:'' then st
           else
             let (d1, summary_id) = save_summary (db st) ''5min'' start now summary None
             in st\<lparr>db := d1, last_5min_summary := now\<rparr>)"

text \<open>
  The frames of the video are the screenshots that are neither \<open>None\<close> nor empty;
  \<open>encode\<close> is \<open>VideoGenerator.generate_video\<close> (true on success) and \<open>video_file\<close> the
  file name made from the start time.
\<close>

definition make_video ::
  "(bytes list \<Rightarrow> bool) \<Rightarrow> (datetime \<Rightarrow> string) \<Rightarrow> datetime \<Rightarrow>
   (capture_row \<times> string list) list \<Rightarrow> string option" where
  "make_video encode video_file start caps =
     (if caps = [] then None
      else
        let screenshot_paths =
              concat (map (\<lambda>(c, _). case screenshot c of
                                        None \<Rightarrow> []
                                      | Some b \<Rightarrow> if b = [] then [] else [b]) caps)
        in if screenshot_paths = [] then None
           else if encode screenshot_paths then Some (video_file start) else None)"

text \<open>
  \<open>_generate_hourly_summary\<close>. An exception of the thinning is caught by the enclosing
  \<open>except\<close>: the summary row is already stored and the watermark stays.
\<close>

definition daemon_generate_hourly_summary ::
  "(summary_row list \<Rightarrow> api_outcome) \<Rightarrow> (bytes list \<Rightarrow> bool) \<Rightarrow> (datetime \<Rightarrow> string) \<Rightarrow>
   datetime \<Rightarrow> daemon \<Rightarrow> daemon" where
  "daemon_generate_hourly_summary api encode video_file now st =
     (let start = last_hourly_summary st;
          five_min_summaries = get_summaries_in_range (db st) ''5min'' start now
      in if five_min_summaries = [] then st\<lparr>last_hourly_summary := now\<rparr>
         else
           let summary = generate_hourly_summary api five_min_summaries in
           if startswith summary ''Error generating summary:'' then st
           else
             let caps = get_captures_since (db st) start True;
                 vp = make_video encode video_file start caps;
                 (d1, summary_id) = save_summary (db st) ''hourly'' start now summary vp
             in case cleanup_screenshots_except_thumbnails d1 start now of
                  Inl _ \<Rightarrow> st\<lparr>db := d1\<rparr>
                | Inr (d2, _) \<Rightarrow> st\<lparr>db := d2, last_hourly_summary := now\<rparr>)"

text \<open>
  \<open>_check_and_generate_summaries\<close>: \<open>now\<close> is the clock at the check, \<open>now5\<close> and \<open>nowh\<close>
  the clock when each generation starts. The program only starts a thread for each
  generation that is due and returns; here the generation runs to its end before the next
  line, which is one of the orders the threads can take. No theorem below rests on this
  definition.
\<close>

definition check_and_generate_summaries ::
  "((capture_row \<times> string list) list \<Rightarrow> api_outcome) \<Rightarrow> (summary_row list \<Rightarrow> api_outcome) \<Rightarrow>
   (bytes list \<Rightarrow> bool) \<Rightarrow> (datetime \<Rightarrow> string) \<Rightarrow> datetime \<Rightarrow> datetime \<Rightarrow> datetime \<Rightarrow>
   daemon \<Rightarrow> daemon" where
  "check_and_generate_summaries api5 apih encode video_file now now5 nowh st =
     (let st1 = (if seconds 300 \<le> now - last_5min_summary st
                 then daemon_generate_5min_summary api5 now5 st else st);
          st2 = (if seconds 3600 \<le> now - last_hourly_summary st
                 then daemon_generate_hourly_summary apih encode video_file nowh st1 else st1)
      in st2)"

section \<open>The tick loop (FocusLogDaemon.run)\<close>

text \<open>
  \<open>time.time()\<close> is a real number of seconds. One pass of the loop reads the clock at the
  top (\<open>t_now\<close>) and again after the sleep, when it sets the next deadline (\<open>t_sched\<close>);
  when the body raises, the handler reads it once more (\<open>raised = Some t\<close>).
  \<open>run_tick\<close> returns the new state and the argument of \<open>time.sleep\<close>, \<open>None\<close> when the
  loop does not sleep.
\<close>

record tick =
  t_now :: real
  t_sched :: real
  raised :: "real option"

record loop_state =
  iteration :: nat
  next_capture_time :: real

definition run_tick :: "int \<Rightarrow> loop_state \<Rightarrow> tick \<Rightarrow> loop_state \<times> real option" where
  "run_tick interval s k =
     (let sleep_time = (if t_now k < next_capture_time s
                        then Some (next_capture_time s - t_now k) else None);
          nxt = t_sched k + real_of_int interval;
          nxt1 = (case raised k of None \<Rightarrow> nxt | Some t \<Rightarrow> t + real_of_int interval)
      in (\<lparr>iteration = Suc (iteration s), next_capture_time = nxt1\<rparr>, sleep_time))"

text \<open>The deadlines that the loop sets, one for each pass, in order.\<close>

fun deadlines :: "int \<Rightarrow> loop_state \<Rightarrow> tick list \<Rightarrow> real list" where
  "deadlines interval s [] = []"
| "deadlines interval s (k # ks) =
     (let s1 = fst (run_tick interval s k)
      in next_capture_time s1 # deadlines interval s1 ks)"

text \<open>
  The clock does not go back and \<open>time.sleep\<close> does not return early: the second reading
  is not before the first, nor before the deadline the loop slept for.
\<close>

definition tick_ok :: "loop_state \<Rightarrow> tick \<Rightarrow> bool" where
  "tick_ok s k = (t_now k \<le> t_sched k \<and> (t_now k < next_capture_time s \<longrightarrow> next_capture_time s \<le> t_sched k)
                  \<and> (case raised k of None \<Rightarrow> True | Some t \<Rightarrow> t_sched k \<le> t))"

text \<open>
  A run in which every pass sets its deadline exactly at the previous deadline \<open>d\<close>: it
  arrived in time, the sleep returned on the dot, and the body did not raise.
\<close>

fun punctual :: "int \<Rightarrow> real \<Rightarrow> tick list \<Rightarrow> bool" where
  "punctual interval d [] = True"
| "punctual interval d (k # ks) =
     (t_now k \<le> d \<and> t_sched k = d \<and> raised k = None \<and> punctual interval (d + real_of_int interval) ks)"

section \<open>The rollups of one granularity\<close>











section \<open>Examples\<close>

text \<open>
  Concrete stores, daemons and remote calls, used to instantiate the theorems below. The
  daemons are in the state that \<open>__init__\<close> leaves on their store: \<open>daemon_a\<close>, \<open>daemon_b\<close>
  and \<open>daemon_c\<close> when started at 3600 s, \<open>daemon_e\<close> when started at 300 s.
\<close>

definition store_a :: store where
  "store_a =
     \<lparr>labels = [],
      captures = [\<lparr>capture_id = 1, timestamp = 10000000, screenshot = Some ''png'',
                   description = Some ''editing'', classification_raw = None,
                   classification_error = None\<rparr>,
                  \<lparr>capture_id = 2, timestamp = 310000000, screenshot = Some ''png'',
                   description = Some ''editing'', classification_raw = None,
                   classification_error = None\<rparr>],
      captures_labels = [],
      summaries = [\<lparr>summary_id = 1, summary_type = ''5min'', start_time = 0,
                    end_time = 300000000, content = ''worked'', video_path = None\<rparr>],
      screenshot_not_null = True\<rparr>"

definition daemon_a :: daemon where
  "daemon_a = \<lparr>db = store_a, last_5min_summary = 300000000, last_hourly_summary = 0\<rparr>"

definition store_b :: store where
  "store_b = store_a\<lparr>captures := captures store_a @
      [\<lparr>capture_id = 3, timestamp = 3700000000, screenshot = Some ''png2'',
        description = Some ''reading'', classification_raw = None,
        classification_error = None\<rparr>]\<rparr>"

definition api_down :: "'a \<Rightarrow> api_outcome" where
  "api_down = (\<lambda>_. Raised ''timeout'' [])"

definition api_says :: "string \<Rightarrow> 'a \<Rightarrow> api_outcome" where
  "api_says txt = (\<lambda>_. Returned \<lparr>status = Some ''completed'', output_list = None,
                                   output_text = Some (Some txt)\<rparr>)"

definition spec_example :: store where
  "spec_example =
     \<lparr>labels = [],
      captures = map (\<lambda>i. \<lparr>capture_id = Suc i, timestamp = seconds (15 * int i),
                             screenshot = Some ''png'', description = Some ''coding'',
                             classification_raw = None, classification_error = None\<rparr>)
                     [0, 1, 2, 3, 4, 5, 6, 7, 8, 9, 10, 11, 12, 13, 14, 15, 16, 17, 18, 19, 20],
      captures_labels = [], summaries = [], screenshot_not_null = True\<rparr>"

definition loop_start :: loop_state where
  "loop_start = \<lparr>iteration = 0, next_capture_time = 0\<rparr>"

definition overrun_ticks :: "tick list" where
  "overrun_ticks = [\<lparr>t_now = 0, t_sched = 0, raised = None\<rparr>,
                    \<lparr>t_now = 20, t_sched = 20, raised = None\<rparr>]"

definition punctual_ticks :: "tick list" where
  "punctual_ticks = [\<lparr>t_now = 0, t_sched = 0, raised = None\<rparr>,
                     \<lparr>t_now = 3, t_sched = 15, raised = None\<rparr>,
                     \<lparr>t_now = 29, t_sched = 30, raised = None\<rparr>]"

definition store_c :: store where
  "store_c =
     \<lparr>labels = [],
      captures = [\<lparr>capture_id = 1, timestamp = 15000000, screenshot = Some ''png1'',
                   description = None, classification_raw = None,
                   classification_error = Some ''rate limit''\<rparr>,
                  \<lparr>capture_id = 2, timestamp = 30000000, screenshot = Some ''png2'',
                   description = None, classification_raw = None,
                   classification_error = Some ''rate limit''\<rparr>],
      captures_labels = [], summaries = [], screenshot_not_null = True\<rparr>"

definition no_clock :: "nat \<Rightarrow> clock" where
  "no_clock = (\<lambda>_. \<lparr>current_timestamp = ''2024-01-02 03:00:00'',
                        now_isoformat = ''2024-01-01T19:00:00''\<rparr>)"

definition daemon_c :: daemon where
  "daemon_c =
     \<lparr>db = store_c\<lparr>summaries :=
             [\<lparr>summary_id = 1, summary_type = ''5min'', start_time = 0,
               end_time = 300000000, content = ''worked'', video_path = None\<rparr>]\<rparr>,
      last_5min_summary = 300000000, last_hourly_summary = 0\<rparr>"

text \<open>
  An evening in a time zone eight hours behind UTC: SQLite's \<open>CURRENT_TIMESTAMP\<close> is the UTC
  time as \<open>YYYY-MM-DD HH:MM:SS\<close>, \<open>datetime.now().isoformat()\<close> the local time.
\<close>

definition evening :: "string \<Rightarrow> clock" where
  "evening ss = \<lparr>current_timestamp = ''2024-01-02 03:00:'' @ ss,
                 now_isoformat = ''2024-01-01T19:00:'' @ ss @ ''.000100''\<rparr>"

definition labels_1 :: store where
  "labels_1 = fst (get_or_create_label (create_tables None) ''coding'' (evening ''00''))"

definition labels_2 :: store where
  "labels_2 = fst (get_or_create_label labels_1 ''email'' (evening ''10''))"

definition labels_3 :: store where
  "labels_3 = fst (get_or_create_label labels_2 ''email'' (evening ''20''))"

definition daemon_e :: daemon where
  "daemon_e = \<lparr>db = store_c, last_5min_summary = 0, last_hourly_summary = - 3300000000\<rparr>"

definition daemon_b :: daemon where
  "daemon_b = \<lparr>db = store_b, last_5min_summary = 300000000, last_hourly_summary = 0\<rparr>"



section \<open>Properties\<close>

subsection \<open>The example daemons\<close>

lemma examples_after_init:
  "daemon_a = daemon_init (Some store_a) 3600000000 3600000000"
  "daemon_b = daemon_init (Some store_b) 3600000000 3600000000"
  "daemon_c = daemon_init (Some (db daemon_c)) 3600000000 3600000000"
  "daemon_e = daemon_init (Some store_c) 300000000 300000000"
  by (simp_all add: daemon_a_def daemon_b_def daemon_c_def daemon_e_def daemon_init_def
        create_tables_def get_latest_summary_def store_a_def store_b_def store_c_def seconds_def
        Let_def)

subsection \<open>What one rollup generation does\<close>

lemma gen5_empty:
  "get_captures_since (db st) (last_5min_summary st) False = [] \<Longrightarrow>
   daemon_generate_5min_summary api now st = st\<lparr>last_5min_summary := now\<rparr>"
  by (simp add: daemon_generate_5min_summary_def Let_def)

lemma genh_empty:
  "get_summaries_in_range (db st) ''5min'' (last_hourly_summary st) now = [] \<Longrightarrow>
   daemon_generate_hourly_summary api encode video_file now st = st\<lparr>last_hourly_summary := now\<rparr>"
  by (simp add: daemon_generate_hourly_summary_def Let_def)

lemma gen5_failed:
  "get_captures_since (db st) (last_5min_summary st) False \<noteq> [] \<Longrightarrow>
   startswith (generate_5min_summary api (get_captures_since (db st) (last_5min_summary st) False))
     ''Error generating summary:'' \<Longrightarrow>
   daemon_generate_5min_summary api now st = st"
  by (simp add: daemon_generate_5min_summary_def Let_def)

lemma genh_failed:
  "get_summaries_in_range (db st) ''5min'' (last_hourly_summary st) now \<noteq> [] \<Longrightarrow>
   startswith (generate_hourly_summary api
       (get_summaries_in_range (db st) ''5min'' (last_hourly_summary st) now))
     ''Error generating summary:'' \<Longrightarrow>
   daemon_generate_hourly_summary api encode video_file now st = st"
  by (simp add: daemon_generate_hourly_summary_def Let_def)

lemma fetched_rows:
  "set (map fst (get_captures_since d wm inc)) =
   (\<lambda>r. if inc then r else r\<lparr>screenshot := None\<rparr>) ` {r \<in> set (captures d). wm < timestamp r}"
  by (auto simp: get_captures_since_def image_iff)

lemma captures_since_grows:
  "captures d' = captures d @ new \<Longrightarrow>
   set (map fst (get_captures_since d wm inc)) \<subseteq> set (map fst (get_captures_since d' wm inc))"
  unfolding fetched_rows by auto

lemma summaries_in_range_grows:
  "summaries d' = summaries d @ new \<Longrightarrow> now \<le> now' \<Longrightarrow>
   set (get_summaries_in_range d ty wm now) \<subseteq> set (get_summaries_in_range d' ty wm now')"
  by (auto simp: get_summaries_in_range_def)

lemma gen5_success:
  "get_captures_since (db st) (last_5min_summary st) False \<noteq> [] \<Longrightarrow>
   \<not> startswith (generate_5min_summary api (get_captures_since (db st) (last_5min_summary st) False))
     ''Error generating summary:'' \<Longrightarrow>
   daemon_generate_5min_summary api now st =
     st\<lparr>db := (db st)\<lparr>summaries := summaries (db st) @
            [\<lparr>summary_id = next_id (map summary_id (summaries (db st))), summary_type = ''5min'',
              start_time = last_5min_summary st, end_time = now,
              content = generate_5min_summary api
                          (get_captures_since (db st) (last_5min_summary st) False),
              video_path = None\<rparr>]\<rparr>,
        last_5min_summary := now\<rparr>"
  by (simp add: daemon_generate_5min_summary_def save_summary_def Let_def)

lemma cleanup_keeps_summaries:
  "cleanup_screenshots_except_thumbnails d s e = Inr (d', res) \<Longrightarrow> summaries d' = summaries d"
  by (auto simp: cleanup_screenshots_except_thumbnails_def null_screenshots_def Let_def
           split: if_splits prod.splits sum.splits)

lemma genh_success_summaries:
  "get_summaries_in_range (db st) ''5min'' (last_hourly_summary st) now \<noteq> [] \<Longrightarrow>
   \<not> startswith (generate_hourly_summary api
       (get_summaries_in_range (db st) ''5min'' (last_hourly_summary st) now))
     ''Error generating summary:'' \<Longrightarrow>
   summaries (db (daemon_generate_hourly_summary api encode video_file now st)) =
     summaries (db st) @
       [\<lparr>summary_id = next_id (map summary_id (summaries (db st))), summary_type = ''hourly'',
         start_time = last_hourly_summary st, end_time = now,
         content = generate_hourly_summary api
                     (get_summaries_in_range (db st) ''5min'' (last_hourly_summary st) now),
         video_path = make_video encode video_file (last_hourly_summary st)
                        (get_captures_since (db st) (last_hourly_summary st) True)\<rparr>]"
  by (auto simp: daemon_generate_hourly_summary_def save_summary_def Let_def
           split: sum.splits prod.splits dest: cleanup_keeps_summaries)

subsection \<open>Empty windows\<close>

text \<open>
  C5. A generation whose fetched source records are empty stores nothing and moves the
  watermark of its granularity to \<open>now\<close>: the state after it is the state before it with
  only that watermark changed. This holds for the 5-minute rollup (source records: the
  captures) and for the hourly rollup (source records: the 5-minute summaries).
\<close>

theorem empty_window_advances_watermark:
  "(get_captures_since (db st) (last_5min_summary st) False = [] \<longrightarrow>
      daemon_generate_5min_summary api5 now st = st\<lparr>last_5min_summary := now\<rparr>) \<and>
   (get_summaries_in_range (db st) ''5min'' (last_hourly_summary st) now = [] \<longrightarrow>
      daemon_generate_hourly_summary apih encode video_file now st
        = st\<lparr>last_hourly_summary := now\<rparr>)"
  by (simp add: gen5_empty genh_empty)

theorem empty_window_advances_watermark_witness:
  "get_captures_since (db (daemon_init None 1000000000 1000000000))
      (last_5min_summary (daemon_init None 1000000000 1000000000)) False = [] \<and>
   daemon_generate_5min_summary api_down 1000000000 (daemon_init None 1000000000 1000000000)
     = (daemon_init None 1000000000 1000000000)\<lparr>last_5min_summary := 1000000000\<rparr> \<and>
   get_summaries_in_range (db (daemon_init None 1000000000 1000000000)) ''5min''
      (last_hourly_summary (daemon_init None 1000000000 1000000000)) 1000000000 = [] \<and>
   daemon_generate_hourly_summary api_down (\<lambda>_. False) (\<lambda>_. []) 1000000000
      (daemon_init None 1000000000 1000000000)
     = (daemon_init None 1000000000 1000000000)\<lparr>last_hourly_summary := 1000000000\<rparr>"
proof -
  have a: "get_captures_since (db (daemon_init None 1000000000 1000000000))
      (last_5min_summary (daemon_init None 1000000000 1000000000)) False = []"
    by (simp add: daemon_init_def create_tables_def get_captures_since_def Let_def)
  have b: "get_summaries_in_range (db (daemon_init None 1000000000 1000000000)) ''5min''
      (last_hourly_summary (daemon_init None 1000000000 1000000000)) 1000000000 = []"
    by (simp add: daemon_init_def create_tables_def get_summaries_in_range_def Let_def)
  show ?thesis
    using a b
      empty_window_advances_watermark [of "daemon_init None 1000000000 1000000000"
        api_down 1000000000 api_down "\<lambda>_. False" "\<lambda>_. []"]
    by blast
qed

subsection \<open>A failed summarization\<close>

text \<open>
  C4. When the summarizer signals failure (its text starts with the error marker), the
  generation changes nothing: no row is stored and the watermark stays, for the 5-minute and
  for the hourly rollup. The next generation therefore starts from the same watermark: on
  any later store \<open>d'\<close> (rows added, none removed) and at any later time \<open>now'\<close> it
  fetches every record the failed one fetched, and when its summary succeeds it stores one
  row that starts at the original watermark and ends at \<open>now'\<close>.
\<close>

theorem summarizer_failure_is_atomic:
  assumes caps: "caps = get_captures_since (db st) (last_5min_summary st) False"
    and fives: "fives = get_summaries_in_range (db st) ''5min'' (last_hourly_summary st) now"
    and later: "captures d' = captures (db st) @ new_caps"
               "summaries d' = summaries (db st) @ new_sums" "now \<le> now'"
  shows
    "(caps \<noteq> [] \<and> startswith (generate_5min_summary api5 caps) ''Error generating summary:'' \<longrightarrow>
        daemon_generate_5min_summary api5 now st = st \<and>
        set (map fst caps) \<subseteq>
          set (map fst (get_captures_since d'
                 (last_5min_summary (daemon_generate_5min_summary api5 now st)) False)) \<and>
        (\<not> startswith (generate_5min_summary api5'
               (get_captures_since d' (last_5min_summary st) False)) ''Error generating summary:'' \<longrightarrow>
           summaries (db (daemon_generate_5min_summary api5' now'
                            ((daemon_generate_5min_summary api5 now st)\<lparr>db := d'\<rparr>))) =
             summaries d' @
               [\<lparr>summary_id = next_id (map summary_id (summaries d')), summary_type = ''5min'',
                 start_time = last_5min_summary st, end_time = now',
                 content = generate_5min_summary api5'
                             (get_captures_since d' (last_5min_summary st) False),
                 video_path = None\<rparr>])) \<and>
     (fives \<noteq> [] \<and> startswith (generate_hourly_summary apih fives) ''Error generating summary:'' \<longrightarrow>
        daemon_generate_hourly_summary apih encode video_file now st = st \<and>
        set fives \<subseteq>
          set (get_summaries_in_range d' ''5min''
                 (last_hourly_summary (daemon_generate_hourly_summary apih encode video_file now st))
                 now') \<and>
        (\<not> startswith (generate_hourly_summary apih'
               (get_summaries_in_range d' ''5min'' (last_hourly_summary st) now'))
             ''Error generating summary:'' \<longrightarrow>
           summaries (db (daemon_generate_hourly_summary apih' encode video_file now'
                            ((daemon_generate_hourly_summary apih encode video_file now st)
                               \<lparr>db := d'\<rparr>))) =
             summaries d' @
               [\<lparr>summary_id = next_id (map summary_id (summaries d')), summary_type = ''hourly'',
                 start_time = last_hourly_summary st, end_time = now',
                 content = generate_hourly_summary apih'
                             (get_summaries_in_range d' ''5min'' (last_hourly_summary st) now'),
                 video_path = make_video encode video_file (last_hourly_summary st)
                                (get_captures_since d' (last_hourly_summary st) True)\<rparr>]))"
proof (intro conjI impI)
  assume a: "caps \<noteq> [] \<and> startswith (generate_5min_summary api5 caps) ''Error generating summary:''"
  show same: "daemon_generate_5min_summary api5 now st = st"
    using a caps gen5_failed by blast
  show sub: "set (map fst caps) \<subseteq>
          set (map fst (get_captures_since d'
                 (last_5min_summary (daemon_generate_5min_summary api5 now st)) False))"
    unfolding same caps using later(1) by (rule captures_since_grows)
  assume ok: "\<not> startswith (generate_5min_summary api5'
               (get_captures_since d' (last_5min_summary st) False)) ''Error generating summary:''"
  have ne: "get_captures_since d' (last_5min_summary st) False \<noteq> []"
    using a sub unfolding same by (cases caps) auto
  show "summaries (db (daemon_generate_5min_summary api5' now'
                            ((daemon_generate_5min_summary api5 now st)\<lparr>db := d'\<rparr>))) =
             summaries d' @
               [\<lparr>summary_id = next_id (map summary_id (summaries d')), summary_type = ''5min'',
                 start_time = last_5min_summary st, end_time = now',
                 content = generate_5min_summary api5'
                             (get_captures_since d' (last_5min_summary st) False),
                 video_path = None\<rparr>]"
    unfolding same using ne ok gen5_success [of "st\<lparr>db := d'\<rparr>" api5' now'] by simp
next
  assume a: "fives \<noteq> [] \<and> startswith (generate_hourly_summary apih fives) ''Error generating summary:''"
  show same: "daemon_generate_hourly_summary apih encode video_file now st = st"
    using a fives genh_failed by blast
  show sub: "set fives \<subseteq>
          set (get_summaries_in_range d' ''5min''
                 (last_hourly_summary (daemon_generate_hourly_summary apih encode video_file now st))
                 now')"
    unfolding same fives using later(2,3) by (rule summaries_in_range_grows)
  assume ok: "\<not> startswith (generate_hourly_summary apih'
               (get_summaries_in_range d' ''5min'' (last_hourly_summary st) now'))
             ''Error generating summary:''"
  have ne: "get_summaries_in_range d' ''5min'' (last_hourly_summary st) now' \<noteq> []"
    using a sub unfolding same by (cases fives) auto
  show "summaries (db (daemon_generate_hourly_summary apih' encode video_file now'
                            ((daemon_generate_hourly_summary apih encode video_file now st)
                               \<lparr>db := d'\<rparr>))) =
             summaries d' @
               [\<lparr>summary_id = next_id (map summary_id (summaries d')), summary_type = ''hourly'',
                 start_time = last_hourly_summary st, end_time = now',
                 content = generate_hourly_summary apih'
                             (get_summaries_in_range d' ''5min'' (last_hourly_summary st) now'),
                 video_path = make_video encode video_file (last_hourly_summary st)
                                (get_captures_since d' (last_hourly_summary st) True)\<rparr>]"
    unfolding same using ne ok genh_success_summaries [of "st\<lparr>db := d'\<rparr>" now' apih' encode video_file]
    by simp
qed

theorem summarizer_failure_is_atomic_witness:
  "get_captures_since (db daemon_a) (last_5min_summary daemon_a) False \<noteq> [] \<and>
   startswith (generate_5min_summary api_down
                 (get_captures_since (db daemon_a) (last_5min_summary daemon_a) False))
     ''Error generating summary:'' \<and>
   get_summaries_in_range (db daemon_a) ''5min'' (last_hourly_summary daemon_a) 3600000000 \<noteq> [] \<and>
   startswith (generate_hourly_summary api_down
                 (get_summaries_in_range (db daemon_a) ''5min'' (last_hourly_summary daemon_a)
                    3600000000))
     ''Error generating summary:'' \<and>
   daemon_generate_5min_summary api_down 3600000000 daemon_a = daemon_a \<and>
   daemon_generate_hourly_summary api_down (\<lambda>_. True) (\<lambda>_. ''videos/a.mp4'') 3600000000 daemon_a
     = daemon_a \<and>
   map (\<lambda>r. (summary_type r, start_time r, end_time r))
       (summaries (db (daemon_generate_5min_summary (api_says ''Coding.'') 3900000000
                         ((daemon_generate_5min_summary api_down 3600000000 daemon_a)
                            \<lparr>db := store_b\<rparr>)))) =
     [(''5min'', 0, 300000000), (''5min'', 300000000, 3900000000)] \<and>
   map (\<lambda>r. (summary_type r, start_time r, end_time r))
       (summaries (db (daemon_generate_hourly_summary (api_says ''An hour of coding.'')
                         (\<lambda>_. True) (\<lambda>_. ''videos/a.mp4'') 3900000000
                         ((daemon_generate_hourly_summary api_down (\<lambda>_. True)
                             (\<lambda>_. ''videos/a.mp4'') 3600000000 daemon_a)
                            \<lparr>db := store_b\<rparr>)))) =
     [(''5min'', 0, 300000000), (''hourly'', 0, 3900000000)]"
proof -
  have c: "get_captures_since (db daemon_a) (last_5min_summary daemon_a) False \<noteq> []"
    by (simp add: daemon_a_def store_a_def get_captures_since_def)
  have f: "get_summaries_in_range (db daemon_a) ''5min'' (last_hourly_summary daemon_a)
             3600000000 \<noteq> []"
    by (simp add: daemon_a_def store_a_def get_summaries_in_range_def)
  have e5: "startswith (generate_5min_summary api_down
                 (get_captures_since (db daemon_a) (last_5min_summary daemon_a) False))
              ''Error generating summary:''"
    using c by (simp add: generate_5min_summary_def api_down_def read_response_def startswith_def)
  have eh: "startswith (generate_hourly_summary api_down
                 (get_summaries_in_range (db daemon_a) ''5min'' (last_hourly_summary daemon_a)
                    3600000000))
              ''Error generating summary:''"
    using f by (simp add: generate_hourly_summary_def api_down_def read_response_def startswith_def)
  have l1: "captures store_b = captures (db daemon_a) @
      [\<lparr>capture_id = 3, timestamp = 3700000000, screenshot = Some ''png2'',
        description = Some ''reading'', classification_raw = None,
        classification_error = None\<rparr>]"
    by (simp add: store_b_def daemon_a_def)
  have l2: "summaries store_b = summaries (db daemon_a) @ []"
    by (simp add: store_b_def daemon_a_def)
  have c': "get_captures_since store_b (last_5min_summary daemon_a) False \<noteq> []"
    by (simp add: daemon_a_def store_b_def store_a_def get_captures_since_def)
  have f': "get_summaries_in_range store_b ''5min'' (last_hourly_summary daemon_a)
             3900000000 \<noteq> []"
    by (simp add: daemon_a_def store_b_def store_a_def get_summaries_in_range_def)
  have ok5: "\<not> startswith (generate_5min_summary (api_says ''Coding.'')
               (get_captures_since store_b (last_5min_summary daemon_a) False))
             ''Error generating summary:''"
    using c' by (simp add: generate_5min_summary_def api_says_def read_response_def
        first_refusal_def startswith_def strip_def isspace_def)
  have okh: "\<not> startswith (generate_hourly_summary (api_says ''An hour of coding.'')
               (get_summaries_in_range store_b ''5min'' (last_hourly_summary daemon_a) 3900000000))
             ''Error generating summary:''"
    using f' by (simp add: generate_hourly_summary_def api_says_def read_response_def
        first_refusal_def startswith_def strip_def isspace_def)
  have s: "summaries store_b = summaries store_a" "summaries store_a =
      [\<lparr>summary_id = 1, summary_type = ''5min'', start_time = 0,
        end_time = 300000000, content = ''worked'', video_path = None\<rparr>]"
     "last_5min_summary daemon_a = 300000000" "last_hourly_summary daemon_a = 0"
    by (simp_all add: store_b_def store_a_def daemon_a_def)
  have le: "(3600000000::int) \<le> 3900000000"
    by simp
  note t = summarizer_failure_is_atomic [OF refl refl l1 l2 le,
      where ?api5.0 = api_down and api5' = "api_says ''Coding.''" and apih = api_down
        and encode = "\<lambda>_. True" and video_file = "\<lambda>_. ''videos/a.mp4''"
        and apih' = "api_says ''An hour of coding.''"]
  from t c e5 have a1: "daemon_generate_5min_summary api_down 3600000000 daemon_a = daemon_a"
    by blast
  from t f eh have b1: "daemon_generate_hourly_summary api_down (\<lambda>_. True)
      (\<lambda>_. ''videos/a.mp4'') 3600000000 daemon_a = daemon_a"
    by blast
  from t c e5 ok5 have a2': "summaries (db (daemon_generate_5min_summary (api_says ''Coding.'')
        3900000000 ((daemon_generate_5min_summary api_down 3600000000 daemon_a)
                            \<lparr>db := store_b\<rparr>))) =
      summaries store_b @
        [\<lparr>summary_id = next_id (map summary_id (summaries store_b)), summary_type = ''5min'',
          start_time = last_5min_summary daemon_a, end_time = 3900000000,
          content = generate_5min_summary (api_says ''Coding.'')
                      (get_captures_since store_b (last_5min_summary daemon_a) False),
          video_path = None\<rparr>]"
    by blast
  have a2: "map (\<lambda>r. (summary_type r, start_time r, end_time r))
       (summaries (db (daemon_generate_5min_summary (api_says ''Coding.'') 3900000000
                         ((daemon_generate_5min_summary api_down 3600000000 daemon_a)
                            \<lparr>db := store_b\<rparr>)))) =
     [(''5min'', 0, 300000000), (''5min'', 300000000, 3900000000)]"
    unfolding a2' by (simp add: s)
  from t f eh okh have b2': "summaries (db (daemon_generate_hourly_summary
        (api_says ''An hour of coding.'') (\<lambda>_. True) (\<lambda>_. ''videos/a.mp4'') 3900000000
        ((daemon_generate_hourly_summary api_down (\<lambda>_. True)
            (\<lambda>_. ''videos/a.mp4'') 3600000000 daemon_a)\<lparr>db := store_b\<rparr>))) =
      summaries store_b @
        [\<lparr>summary_id = next_id (map summary_id (summaries store_b)), summary_type = ''hourly'',
          start_time = last_hourly_summary daemon_a, end_time = 3900000000,
          content = generate_hourly_summary (api_says ''An hour of coding.'')
                      (get_summaries_in_range store_b ''5min'' (last_hourly_summary daemon_a)
                         3900000000),
          video_path = make_video (\<lambda>_. True) (\<lambda>_. ''videos/a.mp4'')
                         (last_hourly_summary daemon_a)
                         (get_captures_since store_b (last_hourly_summary daemon_a) True)\<rparr>]"
    by blast
  have b2: "map (\<lambda>r. (summary_type r, start_time r, end_time r))
       (summaries (db (daemon_generate_hourly_summary (api_says ''An hour of coding.'')
                         (\<lambda>_. True) (\<lambda>_. ''videos/a.mp4'') 3900000000
                         ((daemon_generate_hourly_summary api_down (\<lambda>_. True)
                             (\<lambda>_. ''videos/a.mp4'') 3600000000 daemon_a)
                            \<lparr>db := store_b\<rparr>)))) =
     [(''5min'', 0, 300000000), (''hourly'', 0, 3900000000)]"
    unfolding b2' by (simp add: s)
  show ?thesis
    using c f e5 eh a1 b1 a2 b2 by blast
qed

lemma get_or_create_label_captures:
  "captures (fst (get_or_create_label d n c)) = captures d"
  by (simp add: get_or_create_label_def Let_def split: list.splits)

lemma add_labels_captures: "captures (add_labels d cid clk i ls) = captures d"
proof (induction ls arbitrary: d i)
  case Nil
  show ?case by simp
next
  case (Cons l ls)
  obtain d1 lid where g: "get_or_create_label d l (clk i) = (d1, lid)"
    by (cases "get_or_create_label d l (clk i)")
  have "captures d1 = captures d"
    using get_or_create_label_captures [of d l "clk i"] g by simp
  then show ?case
    using g Cons.IH by (simp add: Let_def)
qed

lemma save_capture_payload:
  "\<exists>d' cid. save_capture d (Some b) descr lbls raw err (Some t) now clk = Inr (d', cid) \<and>
     captures d' = captures d @
       [\<lparr>capture_id = next_id (map capture_id (captures d)), timestamp = t,
         screenshot = Some b, description = descr, classification_raw = raw,
         classification_error = err\<rparr>]"
  by (simp add: save_capture_def Let_def add_labels_captures split: option.splits)

subsection \<open>The payload of a new capture row\<close>

text \<open>
  C10. When the capture fails (\<open>capture()\<close> returns \<open>None\<close>) the daemon stores one row whose
  payload is the empty byte string and whose error is the text
  \<open>Screenshot capture failed\<close>. A classified capture and a capture whose classification
  failed are stored with the captured bytes, and nothing is stored when the classification
  thread raises. So every row has a payload (never \<open>None\<close>) when it is inserted.
\<close>

theorem capture_rows_have_payload:
  "(\<exists>d'. capture_and_classify d now None res clk = Inr d' \<and>
      captures d' = captures d @
        [\<lparr>capture_id = next_id (map capture_id (captures d)), timestamp = now,
          screenshot = Some [], description = None, classification_raw = None,
          classification_error = Some ''Screenshot capture failed''\<rparr>]) \<and>
   (\<exists>d'. capture_and_classify d now (Some b) (Classified lbls descr raw) clk = Inr d' \<and>
      captures d' = captures d @
        [\<lparr>capture_id = next_id (map capture_id (captures d)), timestamp = now,
          screenshot = Some b, description = Some descr, classification_raw = Some raw,
          classification_error = None\<rparr>]) \<and>
   (\<exists>d'. capture_and_classify d now (Some b) (ClassifyFailed e) clk = Inr d' \<and>
      captures d' = captures d @
        [\<lparr>capture_id = next_id (map capture_id (captures d)), timestamp = now,
          screenshot = Some b, description = None, classification_raw = None,
          classification_error = Some e\<rparr>]) \<and>
   capture_and_classify d now (Some b) ClassifyRaised clk = Inr d"
proof (intro conjI)
  obtain d1 c1 where s1: "save_capture d (Some []) None None None
      (Some ''Screenshot capture failed'') (Some now) now clk = Inr (d1, c1)"
    and r1: "captures d1 = captures d @
        [\<lparr>capture_id = next_id (map capture_id (captures d)), timestamp = now,
          screenshot = Some [], description = None, classification_raw = None,
          classification_error = Some ''Screenshot capture failed''\<rparr>]"
    using save_capture_payload by blast
  show "\<exists>d'. capture_and_classify d now None res clk = Inr d' \<and>
      captures d' = captures d @
        [\<lparr>capture_id = next_id (map capture_id (captures d)), timestamp = now,
          screenshot = Some [], description = None, classification_raw = None,
          classification_error = Some ''Screenshot capture failed''\<rparr>]"
    using s1 r1 by (simp add: capture_and_classify_def)
  obtain d2 c2 where s2: "save_capture d (Some b) (Some descr) (Some lbls) (Some raw) None
      (Some now) now clk = Inr (d2, c2)"
    and r2: "captures d2 = captures d @
        [\<lparr>capture_id = next_id (map capture_id (captures d)), timestamp = now,
          screenshot = Some b, description = Some descr, classification_raw = Some raw,
          classification_error = None\<rparr>]"
    using save_capture_payload by blast
  show "\<exists>d'. capture_and_classify d now (Some b) (Classified lbls descr raw) clk = Inr d' \<and>
      captures d' = captures d @
        [\<lparr>capture_id = next_id (map capture_id (captures d)), timestamp = now,
          screenshot = Some b, description = Some descr, classification_raw = Some raw,
          classification_error = None\<rparr>]"
    using s2 r2 by (simp add: capture_and_classify_def classify_and_save_def)
  obtain d3 c3 where s3: "save_capture d (Some b) None None None (Some e)
      (Some now) now clk = Inr (d3, c3)"
    and r3: "captures d3 = captures d @
        [\<lparr>capture_id = next_id (map capture_id (captures d)), timestamp = now,
          screenshot = Some b, description = None, classification_raw = None,
          classification_error = Some e\<rparr>]"
    using save_capture_payload by blast
  show "\<exists>d'. capture_and_classify d now (Some b) (ClassifyFailed e) clk = Inr d' \<and>
      captures d' = captures d @
        [\<lparr>capture_id = next_id (map capture_id (captures d)), timestamp = now,
          screenshot = Some b, description = None, classification_raw = None,
          classification_error = Some e\<rparr>]"
    using s3 r3 by (simp add: capture_and_classify_def classify_and_save_def)
  show "capture_and_classify d now (Some b) ClassifyRaised clk = Inr d"
    by (simp add: capture_and_classify_def classify_and_save_def)
qed

subsection \<open>The records of a window\<close>

text \<open>
  C3. The claim is that a window fetches the records with
  \<open>watermark \<le> timestamp < now\<close>. On the example of the specification (captures every
  15 seconds from 0 to 285, and one more at 300) with watermark 0, the fetch leaves out
  the capture at 0 and returns the capture at 300: it returns 19 of the 20 captures that
  lie in \<open>[0, 300)\<close>.
\<close>

theorem window_fetch_counterexample:
  "seconds 0 \<notin> set (map (\<lambda>(c, _). timestamp c) (get_captures_since spec_example (seconds 0) False)) \<and>
   seconds 300 \<in> set (map (\<lambda>(c, _). timestamp c) (get_captures_since spec_example (seconds 0) False)) \<and>
   length (filter (\<lambda>(c, _). timestamp c < seconds 300)
             (get_captures_since spec_example (seconds 0) False)) = 19 \<and>
   length (filter (\<lambda>c. seconds 0 \<le> timestamp c \<and> timestamp c < seconds 300)
             (captures spec_example)) = 20"
  by (simp add: spec_example_def get_captures_since_def seconds_def)

text \<open>
  C3, as the code has it. The fetch returns exactly the stored captures whose timestamp is
  strictly later than the watermark, with their multiplicity, in ascending order of
  timestamp; there is no upper bound, so \<open>now\<close> plays no part.
\<close>

theorem fetch_is_after_watermark:
  "mset (map (\<lambda>(c, _). timestamp c) (get_captures_since d wm inc)) =
     mset (filter (\<lambda>t. wm < t) (map timestamp (captures d))) \<and>
   sorted (map (\<lambda>(c, _). timestamp c) (get_captures_since d wm inc))"
proof
  have m: "map (\<lambda>(c, _). timestamp c) (get_captures_since d wm inc) =
        map timestamp (sort_key timestamp (filter (\<lambda>r. wm < timestamp r) (captures d)))"
    by (simp add: get_captures_since_def comp_def)
  show "mset (map (\<lambda>(c, _). timestamp c) (get_captures_since d wm inc)) =
     mset (filter (\<lambda>t. wm < t) (map timestamp (captures d)))"
    unfolding m by (simp add: filter_map comp_def)
  show "sorted (map (\<lambda>(c, _). timestamp c) (get_captures_since d wm inc))"
    unfolding m by simp
qed

subsection \<open>How a failed summarization is told from a summary\<close>

lemma failure_paths_marked:
  "summarized outcome = None \<Longrightarrow> startswith (read_response outcome) ''Error generating summary:''"
  by (auto simp: summarized_def read_response_def startswith_def
           split: api_outcome.splits option.splits if_splits)

lemma success_path_text:
  "summarized outcome = Some txt \<Longrightarrow> read_response outcome = txt"
  by (auto simp: summarized_def read_response_def split: api_outcome.splits option.splits if_splits)

lemma gen5_unchanged_iff:
  assumes "get_captures_since (db st) (last_5min_summary st) False \<noteq> []"
  shows "daemon_generate_5min_summary api now st = st \<longleftrightarrow>
         startswith (generate_5min_summary api (get_captures_since (db st) (last_5min_summary st) False))
           ''Error generating summary:''"
proof
  assume e: "daemon_generate_5min_summary api now st = st"
  show "startswith (generate_5min_summary api (get_captures_since (db st) (last_5min_summary st) False))
           ''Error generating summary:''"
  proof (rule ccontr)
    assume n: "\<not> ?thesis"
    have "summaries (db (daemon_generate_5min_summary api now st)) \<noteq> summaries (db st)"
      using gen5_success [OF assms n, of now] by simp
    then show False using e by simp
  qed
next
  assume "startswith (generate_5min_summary api (get_captures_since (db st) (last_5min_summary st) False))
           ''Error generating summary:''"
  then show "daemon_generate_5min_summary api now st = st"
    using assms by (rule gen5_failed [rotated])
qed

lemma genh_unchanged_iff:
  assumes "get_summaries_in_range (db st) ''5min'' (last_hourly_summary st) now \<noteq> []"
  shows "daemon_generate_hourly_summary api encode video_file now st = st \<longleftrightarrow>
         startswith (generate_hourly_summary api
             (get_summaries_in_range (db st) ''5min'' (last_hourly_summary st) now))
           ''Error generating summary:''"
proof
  assume e: "daemon_generate_hourly_summary api encode video_file now st = st"
  show "startswith (generate_hourly_summary api
             (get_summaries_in_range (db st) ''5min'' (last_hourly_summary st) now))
           ''Error generating summary:''"
  proof (rule ccontr)
    assume n: "\<not> ?thesis"
    have "summaries (db (daemon_generate_hourly_summary api encode video_file now st))
            \<noteq> summaries (db st)"
      using genh_success_summaries [OF assms n, of encode video_file] by simp
    then show False using e by simp
  qed
next
  assume "startswith (generate_hourly_summary api
             (get_summaries_in_range (db st) ''5min'' (last_hourly_summary st) now))
           ''Error generating summary:''"
  then show "daemon_generate_hourly_summary api encode video_file now st = st"
    using assms by (rule genh_failed [rotated])
qed

text \<open>
  C8. The claim is that no text of a successful summarization is taken for a failure. The
  remote call below completes and returns a summary that happens to start with the words
  \<open>Error generating summary:\<close>; the 5-minute generation takes it for a failure and
  stores nothing.
\<close>

theorem legitimate_summary_counterexample:
  "summarized (api_says ''Error generating summary: shown in the terminal.''
                 (get_captures_since (db daemon_a) (last_5min_summary daemon_a) False))
     = Some ''Error generating summary: shown in the terminal.'' \<and>
   get_captures_since (db daemon_a) (last_5min_summary daemon_a) False \<noteq> [] \<and>
   daemon_generate_5min_summary (api_says ''Error generating summary: shown in the terminal.'')
     3600000000 daemon_a = daemon_a"
  by (simp add: summarized_def api_says_def first_refusal_def strip_def isspace_def
        daemon_a_def store_a_def get_captures_since_def daemon_generate_5min_summary_def
        generate_5min_summary_def read_response_def startswith_def Let_def labels_of_def)

text \<open>
  C8, as the code has it. The failure signal is the prefix \<open>Error generating summary:\<close> of
  the returned text. Every path of the summarizer other than the final return gives a text
  with that prefix. A generation with records to summarize leaves the state unchanged
  exactly when the summarization failed or its stripped text starts with that prefix; a
  successful text without the prefix is stored as the content of the new row. This holds
  for the 5-minute and for the hourly rollup.
\<close>

theorem failure_is_a_text_prefix:
  assumes "caps = get_captures_since (db st) (last_5min_summary st) False"
    and "fives = get_summaries_in_range (db st) ''5min'' (last_hourly_summary st) now"
  shows
    "(summarized outcome = None \<longrightarrow>
        startswith (read_response outcome) ''Error generating summary:'') \<and>
     (caps \<noteq> [] \<longrightarrow>
        (daemon_generate_5min_summary api5 now st = st \<longleftrightarrow>
           (case summarized (api5 caps) of
              None \<Rightarrow> True
            | Some txt \<Rightarrow> startswith txt ''Error generating summary:'')) \<and>
        (\<forall>txt. summarized (api5 caps) = Some txt \<and> \<not> startswith txt ''Error generating summary:'' \<longrightarrow>
           map content (summaries (db (daemon_generate_5min_summary api5 now st)))
             = map content (summaries (db st)) @ [txt])) \<and>
     (fives \<noteq> [] \<longrightarrow>
        (daemon_generate_hourly_summary apih encode video_file now st = st \<longleftrightarrow>
           (case summarized (apih fives) of
              None \<Rightarrow> True
            | Some txt \<Rightarrow> startswith txt ''Error generating summary:'')) \<and>
        (\<forall>txt. summarized (apih fives) = Some txt \<and> \<not> startswith txt ''Error generating summary:'' \<longrightarrow>
           map content (summaries (db (daemon_generate_hourly_summary apih encode video_file now st)))
             = map content (summaries (db st)) @ [txt]))"
proof (intro conjI impI allI)
  assume "summarized outcome = None"
  then show "startswith (read_response outcome) ''Error generating summary:''"
    by (rule failure_paths_marked)
next
  assume ne: "caps \<noteq> []"
  have g: "generate_5min_summary api5 caps = read_response (api5 caps)"
    using ne by (simp add: generate_5min_summary_def)
  show "daemon_generate_5min_summary api5 now st = st \<longleftrightarrow>
           (case summarized (api5 caps) of
              None \<Rightarrow> True
            | Some txt \<Rightarrow> startswith txt ''Error generating summary:'')"
    using gen5_unchanged_iff [of st api5 now] ne g failure_paths_marked [of "api5 caps"]
      success_path_text [of "api5 caps"]
    unfolding assms(1) [symmetric] by (cases "summarized (api5 caps)") auto
  fix tx
  assume s: "summarized (api5 caps) = Some tx \<and> \<not> startswith tx ''Error generating summary:''"
  then have "\<not> startswith (generate_5min_summary api5 caps) ''Error generating summary:''"
    using g success_path_text by simp
  then show "map content (summaries (db (daemon_generate_5min_summary api5 now st)))
             = map content (summaries (db st)) @ [tx]"
    using gen5_success [of st api5 now] ne s g success_path_text [of "api5 caps" tx]
    unfolding assms(1) [symmetric] by simp
next
  assume ne: "fives \<noteq> []"
  have g: "generate_hourly_summary apih fives = read_response (apih fives)"
    using ne by (simp add: generate_hourly_summary_def)
  show "daemon_generate_hourly_summary apih encode video_file now st = st \<longleftrightarrow>
           (case summarized (apih fives) of
              None \<Rightarrow> True
            | Some txt \<Rightarrow> startswith txt ''Error generating summary:'')"
    using genh_unchanged_iff [of st now apih encode video_file] ne g
      failure_paths_marked [of "apih fives"] success_path_text [of "apih fives"]
    unfolding assms(2) [symmetric] by (cases "summarized (apih fives)") auto
  fix tx
  assume s: "summarized (apih fives) = Some tx \<and> \<not> startswith tx ''Error generating summary:''"
  then have "\<not> startswith (generate_hourly_summary apih fives) ''Error generating summary:''"
    using g success_path_text by simp
  then show "map content (summaries (db (daemon_generate_hourly_summary apih encode video_file now st)))
             = map content (summaries (db st)) @ [tx]"
    using genh_success_summaries [of st now apih encode video_file] ne s g
      success_path_text [of "apih fives" tx]
    unfolding assms(2) [symmetric] by simp
qed


theorem failure_is_a_text_prefix_witness:
  "summarized (Raised ''timeout'' []) = None \<and>
   startswith (read_response (Raised ''timeout'' [])) ''Error generating summary:'' \<and>
   get_captures_since (db daemon_a) (last_5min_summary daemon_a) False \<noteq> [] \<and>
   summarized (api_says ''Coding.''
                 (get_captures_since (db daemon_a) (last_5min_summary daemon_a) False))
     = Some ''Coding.'' \<and>
   \<not> startswith ''Coding.'' ''Error generating summary:'' \<and>
   map content (summaries (db (daemon_generate_5min_summary (api_says ''Coding.'')
                                 3600000000 daemon_a)))
     = [''worked'', ''Coding.''] \<and>
   get_summaries_in_range (db daemon_a) ''5min'' (last_hourly_summary daemon_a) 3600000000 \<noteq> [] \<and>
   daemon_generate_hourly_summary api_down (\<lambda>_. True) (\<lambda>_. ''videos/a.mp4'') 3600000000 daemon_a
     = daemon_a"
proof -
  have n: "summarized (Raised ''timeout'' []) = None"
    by (simp add: summarized_def)
  have c: "get_captures_since (db daemon_a) (last_5min_summary daemon_a) False \<noteq> []"
    by (simp add: daemon_a_def store_a_def get_captures_since_def)
  have f: "get_summaries_in_range (db daemon_a) ''5min'' (last_hourly_summary daemon_a)
             3600000000 \<noteq> []"
    by (simp add: daemon_a_def store_a_def get_summaries_in_range_def)
  have s5: "summarized (api_says ''Coding.''
                 (get_captures_since (db daemon_a) (last_5min_summary daemon_a) False))
     = Some ''Coding.''"
    by (simp add: summarized_def api_says_def first_refusal_def strip_def isspace_def)
  have p: "\<not> startswith ''Coding.'' ''Error generating summary:''"
    by (simp add: startswith_def)
  have sh: "summarized (api_down
              (get_summaries_in_range (db daemon_a) ''5min'' (last_hourly_summary daemon_a)
                 3600000000)) = None"
    by (simp add: summarized_def api_down_def)
  have w: "map content (summaries (db daemon_a)) = [''worked'']"
    by (simp add: daemon_a_def store_a_def)
  note t = failure_is_a_text_prefix [OF refl refl,
      where outcome = "Raised ''timeout'' []" and st = daemon_a and now = 3600000000
        and ?api5.0 = "api_says ''Coding.''" and apih = api_down
        and encode = "\<lambda>_. True" and video_file = "\<lambda>_. ''videos/a.mp4''"]
  from t n have a1: "startswith (read_response (Raised ''timeout'' [])) ''Error generating summary:''"
    by blast
  from t c s5 p have a2: "map content (summaries (db (daemon_generate_5min_summary
        (api_says ''Coding.'') 3600000000 daemon_a))) = map content (summaries (db daemon_a)) @ [''Coding.'']"
    by blast
  from t f have "daemon_generate_hourly_summary api_down (\<lambda>_. True) (\<lambda>_. ''videos/a.mp4'')
        3600000000 daemon_a = daemon_a \<longleftrightarrow>
      (case summarized (api_down (get_summaries_in_range (db daemon_a) ''5min''
                (last_hourly_summary daemon_a) 3600000000)) of
         None \<Rightarrow> True | Some tx \<Rightarrow> startswith tx ''Error generating summary:'')"
    by blast
  then have a3: "daemon_generate_hourly_summary api_down (\<lambda>_. True) (\<lambda>_. ''videos/a.mp4'')
        3600000000 daemon_a = daemon_a"
    unfolding sh by simp
  show ?thesis
    using n a1 c s5 p a2 f a3 unfolding w by simp
qed

subsection \<open>The deadlines of the tick loop\<close>

lemma run_tick_deadline:
  "next_capture_time (fst (run_tick i s k)) =
     (case raised k of None \<Rightarrow> t_sched k | Some t \<Rightarrow> t) + real_of_int i"
  by (simp add: run_tick_def Let_def split: option.splits)

lemma run_tick_sleep:
  "snd (run_tick i s k) =
     (if t_now k < next_capture_time s then Some (next_capture_time s - t_now k) else None)"
  by (simp add: run_tick_def Let_def)

lemma run_tick_never_earlier:
  "tick_ok s k \<Longrightarrow> next_capture_time s + real_of_int i \<le> next_capture_time (fst (run_tick i s k))"
  unfolding run_tick_deadline by (auto simp: tick_ok_def split: option.splits)

lemma punctual_deadlines:
  "punctual i (next_capture_time s) ks \<Longrightarrow>
   deadlines i s ks = map (\<lambda>n. next_capture_time s + real (Suc n) * real_of_int i) [0..<length ks]"
proof (induction ks arbitrary: s)
  case Nil
  show ?case by simp
next
  case (Cons k ks)
  let ?s1 = "fst (run_tick i s k)"
  have d: "next_capture_time ?s1 = next_capture_time s + real_of_int i"
    using Cons.prems by (simp add: run_tick_deadline)
  have "punctual i (next_capture_time ?s1) ks"
    using Cons.prems d by simp
  then have ih: "deadlines i ?s1 ks =
      map (\<lambda>n. next_capture_time ?s1 + real (Suc n) * real_of_int i) [0..<length ks]"
    by (rule Cons.IH)
  have "deadlines i s (k # ks) = next_capture_time ?s1 # deadlines i ?s1 ks"
    by (simp add: Let_def)
  also have "\<dots> = map (\<lambda>n. next_capture_time s + real (Suc n) * real_of_int i) [0..<length (k # ks)]"
    unfolding ih d by (simp add: map_upt_Suc algebra_simps del: upt_Suc)
  finally show ?case .
qed

text \<open>
  C1. The claim is that each deadline is the previous deadline plus the interval. With an
  interval of 15 seconds, let the first pass start at 0 (deadline 15) and take 20 seconds.
  The second pass starts at 20, does not sleep, and sets the deadline 35, not 30.
\<close>

theorem drift_free_counterexample:
  "tick_ok loop_start (overrun_ticks ! 0) \<and>
   tick_ok (fst (run_tick 15 loop_start (overrun_ticks ! 0))) (overrun_ticks ! 1) \<and>
   deadlines 15 loop_start overrun_ticks = [15, 35] \<and>
   snd (run_tick 15 (fst (run_tick 15 loop_start (overrun_ticks ! 0))) (overrun_ticks ! 1)) = None \<and>
   (35 :: real) \<noteq> 15 + real_of_int 15"
  by (simp add: loop_start_def overrun_ticks_def tick_ok_def run_tick_def Let_def)

text \<open>
  C1, as the code has it. A pass that starts at or after its deadline does not sleep. The
  next deadline is a clock reading plus the interval: the reading taken after the sleep
  when the body of the pass does not raise, the reading taken in the exception handler when
  it does. So the next deadline is the previous one plus the interval exactly when that
  reading is the previous deadline. When the clock does not go back and the sleep does not
  return early (\<open>tick_ok\<close>), it is never earlier than the previous deadline plus the
  interval. In a run where every pass takes its reading exactly at its deadline and no pass
  raises (\<open>punctual\<close>), the deadlines are the start plus 1, 2, 3, ... intervals.
\<close>

theorem deadline_follows_the_clock:
  "(next_capture_time s \<le> t_now k \<longrightarrow> snd (run_tick i s k) = None) \<and>
   next_capture_time (fst (run_tick i s k)) =
     (case raised k of None \<Rightarrow> t_sched k | Some t \<Rightarrow> t) + real_of_int i \<and>
   (next_capture_time (fst (run_tick i s k)) = next_capture_time s + real_of_int i \<longleftrightarrow>
      (case raised k of None \<Rightarrow> t_sched k | Some t \<Rightarrow> t) = next_capture_time s) \<and>
   (tick_ok s k \<longrightarrow>
      next_capture_time s + real_of_int i \<le> next_capture_time (fst (run_tick i s k))) \<and>
   (punctual i (next_capture_time s) ks \<longrightarrow>
      deadlines i s ks =
        map (\<lambda>n. next_capture_time s + real (Suc n) * real_of_int i) [0..<length ks])"
  using run_tick_never_earlier [of s k i] punctual_deadlines [of i s ks]
  by (simp add: run_tick_sleep run_tick_deadline)

theorem deadline_follows_the_clock_witness:
  "next_capture_time \<lparr>iteration = 1, next_capture_time = 15\<rparr>
     \<le> t_now \<lparr>t_now = 20, t_sched = 20, raised = None\<rparr> \<and>
   snd (run_tick 15 \<lparr>iteration = 1, next_capture_time = 15\<rparr>
          \<lparr>t_now = 20, t_sched = 20, raised = None\<rparr>) = None \<and>
   next_capture_time (fst (run_tick 15 \<lparr>iteration = 1, next_capture_time = 15\<rparr>
          \<lparr>t_now = 20, t_sched = 20, raised = None\<rparr>)) = 35 \<and>
   tick_ok \<lparr>iteration = 1, next_capture_time = 15\<rparr> \<lparr>t_now = 20, t_sched = 20, raised = None\<rparr> \<and>
   tick_ok loop_start \<lparr>t_now = 0, t_sched = 0, raised = Some 4\<rparr> \<and>
   next_capture_time (fst (run_tick 15 loop_start \<lparr>t_now = 0, t_sched = 0, raised = Some 4\<rparr>))
     = 19 \<and>
   punctual 15 (next_capture_time loop_start) punctual_ticks \<and>
   deadlines 15 loop_start punctual_ticks = [15, 30, 45]"
proof -
  have p: "punctual 15 (next_capture_time loop_start) punctual_ticks"
    by (simp add: loop_start_def punctual_ticks_def)
  have o: "tick_ok \<lparr>iteration = 1, next_capture_time = 15\<rparr>
             \<lparr>t_now = 20, t_sched = 20, raised = None\<rparr>"
    by (simp add: tick_ok_def)
  have o2: "tick_ok loop_start \<lparr>t_now = 0, t_sched = 0, raised = Some 4\<rparr>"
    by (simp add: tick_ok_def loop_start_def)
  have l: "[0..<length punctual_ticks] = [0, 1, 2]"
    by (simp add: punctual_ticks_def upt_rec)
  have "deadlines 15 loop_start punctual_ticks =
      map (\<lambda>n. next_capture_time loop_start + real (Suc n) * real_of_int 15)
        [0..<length punctual_ticks]"
    using p deadline_follows_the_clock [of loop_start k 15 punctual_ticks] by blast
  then have d: "deadlines 15 loop_start punctual_ticks = [15, 30, 45]"
    unfolding l by (simp add: loop_start_def)
  have r: "snd (run_tick 15 \<lparr>iteration = 1, next_capture_time = 15\<rparr>
          \<lparr>t_now = 20, t_sched = 20, raised = None\<rparr>) = None \<and>
     next_capture_time (fst (run_tick 15 \<lparr>iteration = 1, next_capture_time = 15\<rparr>
          \<lparr>t_now = 20, t_sched = 20, raised = None\<rparr>)) = 35"
    using deadline_follows_the_clock [of "\<lparr>iteration = 1, next_capture_time = 15\<rparr>"
        "\<lparr>t_now = 20, t_sched = 20, raised = None\<rparr>" 15 "[]"]
    by simp
  have e: "next_capture_time (fst (run_tick 15 loop_start
        \<lparr>t_now = 0, t_sched = 0, raised = Some 4\<rparr>)) = 19"
    using deadline_follows_the_clock [of loop_start
        "\<lparr>t_now = 0, t_sched = 0, raised = Some 4\<rparr>" 15 "[]"]
    by simp
  show ?thesis
    using p o o2 d r e by simp
qed

subsection \<open>Thinning the screenshots\<close>

text \<open>
  The 5-minute window of a capture starts at its timestamp rounded down to a multiple of
  300 seconds, so later captures have later or equal windows.
\<close>

lemma div_60_12: "(q::int) div 5 = (q div 60) * 12 + (q mod 60) div 5"
proof -
  have "q = q mod 60 + 5 * (12 * (q div 60))"
    by (simp add: algebra_simps)
  then have "q div 5 = (q mod 60 + 5 * (12 * (q div 60))) div 5"
    by simp
  also have "\<dots> = 12 * (q div 60) + (q mod 60) div 5"
    by (rule div_mult_self2) simp
  finally show ?thesis by simp
qed

lemma window_start_floor: "window_start t = (t div 300000000) * 300000000"
proof -
  define q where "q = t div 60000000"
  have "t div (60000000 * 60) = t div 60000000 div 60"
    by (rule zdiv_zmult2_eq) simp
  then have a: "t div 3600000000 = q div 60"
    unfolding q_def by simp
  have "t div (60000000 * 5) = t div 60000000 div 5"
    by (rule zdiv_zmult2_eq) simp
  then have b: "t div 300000000 = q div 5"
    unfolding q_def by simp
  have m: "t - t mod 3600000000 = (t div 3600000000) * 3600000000"
    by (simp add: minus_mod_eq_div_mult)
  have "window_start t = (t - t mod 3600000000) + ((q mod 60) div 5) * 5 * 60000000"
    unfolding window_start_def minute_def replace_minute_def Let_def q_def by simp
  also have "\<dots> = (q div 60) * 3600000000 + ((q mod 60) div 5) * 300000000"
    unfolding m a by simp
  also have "\<dots> = ((q div 60) * 12 + (q mod 60) div 5) * 300000000"
    by (simp add: algebra_simps)
  also have "\<dots> = (t div 300000000) * 300000000"
    unfolding b div_60_12 [of q] ..
  finally show ?thesis .
qed

lemma window_start_mono: "t1 \<le> t2 \<Longrightarrow> window_start t1 \<le> window_start t2"
  unfolding window_start_floor by (simp add: zdiv_mono1)

lemma group_windows_length:
  "length del \<le> length (snd (group_windows cs th del cur))"
proof (induction cs arbitrary: th del cur)
  case Nil
  show ?case by simp
next
  case (Cons c cs)
  show ?case
  proof (cases "cur = Some (window_start (timestamp c))")
    case True
    then have "snd (group_windows (c # cs) th del cur)
        = snd (group_windows cs th (del @ [capture_id c]) cur)"
      by simp
    moreover have "length (del @ [capture_id c])
        \<le> length (snd (group_windows cs th (del @ [capture_id c]) cur))"
      by (rule Cons.IH)
    ultimately show ?thesis by simp
  next
    case False
    then have "snd (group_windows (c # cs) th del cur)
        = snd (group_windows cs (th @ [capture_id c]) del (Some (window_start (timestamp c))))"
      by simp
    then show ?thesis
      using Cons.IH [of del "th @ [capture_id c]" "Some (window_start (timestamp c))"] by simp
  qed
qed

lemma group_windows_ids:
  "set (snd (group_windows cs th del cur)) \<subseteq> set del \<union> capture_id ` set cs"
proof (induction cs arbitrary: th del cur)
  case Nil
  show ?case by simp
next
  case (Cons c cs)
  show ?case
    using Cons.IH [of "th @ [capture_id c]" del "Some (window_start (timestamp c))"]
      Cons.IH [of th "del @ [capture_id c]" cur]
    by (auto split: if_splits)
qed

lemma group_windows_nothing_deleted:
  assumes "sorted (map timestamp cs)"
    and "\<And>w c. cur = Some w \<Longrightarrow> c \<in> set cs \<Longrightarrow> w \<le> window_start (timestamp c)"
    and "snd (group_windows cs th del cur) = del"
  shows "distinct (map (\<lambda>c. window_start (timestamp c)) cs) \<and>
         (\<forall>w. cur = Some w \<longrightarrow> w \<notin> (\<lambda>c. window_start (timestamp c)) ` set cs)"
  using assms
proof (induction cs arbitrary: th del cur)
  case Nil
  show ?case by simp
next
  case (Cons c cs)
  let ?w = "window_start (timestamp c)"
  have later: "\<And>c'. c' \<in> set cs \<Longrightarrow> ?w \<le> window_start (timestamp c')"
    using Cons.prems(1) by (auto intro: window_start_mono)
  show ?case
  proof (cases "cur = Some ?w")
    case True
    then have "snd (group_windows (c # cs) th del cur)
        = snd (group_windows cs th (del @ [capture_id c]) cur)"
      by simp
    then have "length (del @ [capture_id c]) \<le> length del"
      using group_windows_length [of "del @ [capture_id c]" cs th cur] Cons.prems(3) by simp
    then show ?thesis by simp
  next
    case False
    then have r: "snd (group_windows cs (th @ [capture_id c]) del (Some ?w)) = del"
      using Cons.prems(3) by simp
    have s: "sorted (map timestamp cs)"
      using Cons.prems(1) by simp
    have ih: "distinct (map (\<lambda>c. window_start (timestamp c)) cs) \<and>
         (\<forall>w. Some ?w = Some w \<longrightarrow> w \<notin> (\<lambda>c. window_start (timestamp c)) ` set cs)"
      using Cons.IH [OF s _ r] later by blast
    have "w \<notin> (\<lambda>c. window_start (timestamp c)) ` set (c # cs)" if w: "cur = Some w" for w
    proof -
      have "w \<le> ?w" using Cons.prems(2) [OF w] by simp
      moreover have "w \<noteq> ?w" using False w by simp
      ultimately have "w < ?w" by simp
      then show ?thesis using later by force
    qed
    then show ?thesis using ih by auto
  qed
qed

lemma same_window_is_deleted:
  assumes "sorted (map timestamp cs)"
    and "\<not> distinct (map (\<lambda>c. window_start (timestamp c)) cs)"
  shows "snd (group_windows cs [] [] None) \<noteq> []"
  using group_windows_nothing_deleted [of cs None "[]" "[]"] assms by auto

lemma in_range_sorted:
  "sorted (map timestamp (sort_key timestamp (filter P rows)))"
  by simp

lemma distinct_after_sort:
  "distinct (map f (sort_key k xs)) = distinct (map f xs)"
proof -
  have "mset (map f (sort_key k xs)) = mset (map f xs)"
    by simp
  then show ?thesis
    by (rule mset_eq_imp_distinct_iff)
qed

text \<open>
  C9. The tables that \<open>_create_tables\<close> makes declare \<open>captures.screenshot\<close> NOT NULL.
  On a store with that constraint, when two captures of the cleaned range lie in the same
  5-minute window, the thinning raises \<open>IntegrityError\<close> at its UPDATE and returns no
  thinned store.
\<close>

theorem thinning_violates_not_null:
  "screenshot_not_null (create_tables None) \<and>
   (screenshot_not_null d \<and>
    \<not> distinct (map (\<lambda>c. window_start (timestamp c))
                  (filter (\<lambda>r. s \<le> timestamp r \<and> timestamp r < e) (captures d))) \<longrightarrow>
      cleanup_screenshots_except_thumbnails d s e = Inl IntegrityError)"
proof (intro conjI impI)
  show "screenshot_not_null (create_tables None)"
    by (simp add: create_tables_def)
next
  assume a: "screenshot_not_null d \<and>
    \<not> distinct (map (\<lambda>c. window_start (timestamp c))
                  (filter (\<lambda>r. s \<le> timestamp r \<and> timestamp r < e) (captures d)))"
  let ?cs = "sort_key timestamp (filter (\<lambda>r. s \<le> timestamp r \<and> timestamp r < e) (captures d))"
  obtain th to_delete where g: "group_windows ?cs [] [] None = (th, to_delete)"
    by (cases "group_windows ?cs [] [] None")
  have nd: "\<not> distinct (map (\<lambda>c. window_start (timestamp c)) ?cs)"
    using a by (simp add: distinct_after_sort)
  then have ne: "?cs \<noteq> []"
    by auto
  have del: "to_delete \<noteq> []"
    using same_window_is_deleted [OF in_range_sorted nd] g by simp
  then obtain i where i: "i \<in> set to_delete"
    by (cases to_delete) auto
  have "set to_delete \<subseteq> capture_id ` set ?cs"
    using group_windows_ids [of ?cs "[]" "[]" None] g by simp
  then obtain r where r: "r \<in> set (captures d)" "capture_id r = i"
    using i by auto
  then have "null_screenshots d to_delete = Inl IntegrityError"
    using a i by (auto simp: null_screenshots_def)
  then show "cleanup_screenshots_except_thumbnails d s e = Inl IntegrityError"
    using ne del g by (simp add: cleanup_screenshots_except_thumbnails_def Let_def)
qed


theorem thinning_violates_not_null_witness:
  "(case capture_and_classify (create_tables None) 15000000 (Some ''png1'')
           (ClassifyFailed ''rate limit'') no_clock of
      Inl x \<Rightarrow> Inl x
    | Inr d1 \<Rightarrow> capture_and_classify d1 30000000 (Some ''png2'')
                  (ClassifyFailed ''rate limit'') no_clock) = Inr store_c \<and>
   screenshot_not_null store_c \<and>
   \<not> distinct (map (\<lambda>c. window_start (timestamp c))
                 (filter (\<lambda>r. 0 \<le> timestamp r \<and> timestamp r < 3600000000) (captures store_c))) \<and>
   cleanup_screenshots_except_thumbnails store_c 0 3600000000 = Inl IntegrityError"
proof -
  have b: "(case capture_and_classify (create_tables None) 15000000 (Some ''png1'')
           (ClassifyFailed ''rate limit'') no_clock of
      Inl x \<Rightarrow> Inl x
    | Inr d1 \<Rightarrow> capture_and_classify d1 30000000 (Some ''png2'')
                  (ClassifyFailed ''rate limit'') no_clock) = Inr store_c"
    by (simp add: capture_and_classify_def classify_and_save_def save_capture_def
          create_tables_def next_id_def store_c_def Let_def)
  have n: "screenshot_not_null store_c"
    by (simp add: store_c_def)
  have w: "window_start 15000000 = 0" "window_start 30000000 = 0"
    by (simp_all add: window_start_def minute_def replace_minute_def)
  have d: "\<not> distinct (map (\<lambda>c. window_start (timestamp c))
                 (filter (\<lambda>r. 0 \<le> timestamp r \<and> timestamp r < 3600000000) (captures store_c)))"
    by (simp add: store_c_def w)
  show ?thesis
    using b n d thinning_violates_not_null [of store_c 0 3600000000] by blast
qed

text \<open>
  C6. The claim is that thinning a finished hour with \<open>k\<close> non-empty 5-minute windows
  leaves \<open>k\<close> payloads. Here the hour \<open>[0, 3600 s)\<close> holds two captures, both in the
  window that starts at 0, so \<open>k = 1\<close>. The thinning raises \<open>IntegrityError\<close>; after the
  hourly generation both captures still have their payload, the hourly row is stored, and
  the hourly watermark has not moved.
\<close>

theorem thinning_keeps_every_payload:
  "map screenshot (captures (db daemon_c)) = [Some ''png1'', Some ''png2''] \<and>
   map (\<lambda>c. window_start (timestamp c)) (captures (db daemon_c)) = [0, 0] \<and>
   cleanup_screenshots_except_thumbnails (db daemon_c) 0 3600000000 = Inl IntegrityError \<and>
   map screenshot (captures (db (daemon_generate_hourly_summary (api_says ''An hour of coding.'')
                                   (\<lambda>_. True) (\<lambda>_. ''videos/a.mp4'') 3600000000 daemon_c)))
     = [Some ''png1'', Some ''png2''] \<and>
   last_hourly_summary (daemon_generate_hourly_summary (api_says ''An hour of coding.'')
                          (\<lambda>_. True) (\<lambda>_. ''videos/a.mp4'') 3600000000 daemon_c) = 0 \<and>
   map (\<lambda>r. (summary_type r, start_time r, end_time r))
       (summaries (db (daemon_generate_hourly_summary (api_says ''An hour of coding.'')
                         (\<lambda>_. True) (\<lambda>_. ''videos/a.mp4'') 3600000000 daemon_c)))
     = [(''5min'', 0, 300000000), (''hourly'', 0, 3600000000)]"
proof -
  have w: "window_start 15000000 = 0" "window_start 30000000 = 0"
    by (simp_all add: window_start_def minute_def replace_minute_def)
  have c: "cleanup_screenshots_except_thumbnails (db daemon_c) 0 3600000000 = Inl IntegrityError"
    by (simp add: cleanup_screenshots_except_thumbnails_def daemon_c_def store_c_def w
          null_screenshots_def Let_def)
  have c': "\<And>row. cleanup_screenshots_except_thumbnails
        ((db daemon_c)\<lparr>summaries := summaries (db daemon_c) @ [row]\<rparr>) 0 3600000000
      = Inl IntegrityError"
    by (simp add: cleanup_screenshots_except_thumbnails_def daemon_c_def store_c_def w
          null_screenshots_def Let_def)
  have f: "get_summaries_in_range (db daemon_c) ''5min'' 0 3600000000 \<noteq> []"
    by (simp add: get_summaries_in_range_def daemon_c_def store_c_def)
  have t: "\<And>fs. fs \<noteq> [] \<Longrightarrow>
      generate_hourly_summary (api_says ''An hour of coding.'') fs = ''An hour of coding.''"
    by (simp add: generate_hourly_summary_def api_says_def read_response_def first_refusal_def
          strip_def isspace_def)
  have h: "last_hourly_summary daemon_c = 0"
    by (simp add: daemon_c_def)
  have g: "daemon_generate_hourly_summary (api_says ''An hour of coding.'')
        (\<lambda>_. True) (\<lambda>_. ''videos/a.mp4'') 3600000000 daemon_c =
      daemon_c\<lparr>db := (db daemon_c)\<lparr>summaries := summaries (db daemon_c) @
         [\<lparr>summary_id = next_id (map summary_id (summaries (db daemon_c))),
           summary_type = ''hourly'', start_time = last_hourly_summary daemon_c,
           end_time = 3600000000, content = ''An hour of coding.'',
           video_path = make_video (\<lambda>_. True) (\<lambda>_. ''videos/a.mp4'')
                          (last_hourly_summary daemon_c)
                          (get_captures_since (db daemon_c) (last_hourly_summary daemon_c) True)\<rparr>]\<rparr>\<rparr>"
    by (simp add: daemon_generate_hourly_summary_def f t c' h save_summary_def startswith_def
          Let_def)
  show ?thesis
    unfolding g using c by (simp add: daemon_c_def store_c_def w)
qed

subsection \<open>Labels\<close>

text \<open>
  Two calls of \<open>get_or_create_label\<close> with one name return one id, and a call adds a row
  only for a name that has none.
\<close>

lemma get_or_create_label_same_id:
  "snd (get_or_create_label (fst (get_or_create_label d n c1)) n c2)
     = snd (get_or_create_label d n c1)"
proof (cases "filter (\<lambda>r. label_name r = n) (labels d)")
  case Nil
  then show ?thesis
    by (simp add: get_or_create_label_def Let_def)
next
  case (Cons row rows)
  have "filter (\<lambda>r. label_name r = n)
          (map (\<lambda>r. if label_id r = label_id row then r\<lparr>last_used := now_isoformat c1\<rparr> else r)
             (labels d))
        = map (\<lambda>r. if label_id r = label_id row then r\<lparr>last_used := now_isoformat c1\<rparr> else r)
            (filter (\<lambda>r. label_name r = n) (labels d))"
    by (induction "labels d") (auto simp: filter_map comp_def)
  then show ?thesis
    using Cons by (simp add: get_or_create_label_def Let_def)
qed

lemma get_or_create_label_names:
  "map label_name (labels (fst (get_or_create_label d n c))) =
     (if n \<in> set (map label_name (labels d)) then map label_name (labels d)
      else map label_name (labels d) @ [n])"
proof (cases "filter (\<lambda>r. label_name r = n) (labels d)")
  case Nil
  then have "n \<notin> set (map label_name (labels d))"
    by (auto simp: filter_empty_conv)
  then show ?thesis
    using Nil by (simp add: get_or_create_label_def Let_def)
next
  case (Cons row rows)
  then have "row \<in> set (filter (\<lambda>r. label_name r = n) (labels d))"
    by simp
  then have "n \<in> set (map label_name (labels d))"
    by auto
  moreover have "map label_name
      (map (\<lambda>r. if label_id r = label_id row then r\<lparr>last_used := now_isoformat c\<rparr> else r) (labels d))
      = map label_name (labels d)"
    by (induction "labels d") auto
  ultimately show ?thesis
    using Cons by (simp add: get_or_create_label_def Let_def)
qed

lemma get_or_create_label_no_duplicate:
  "distinct (map label_name (labels d)) \<Longrightarrow>
   distinct (map label_name (labels (fst (get_or_create_label d n c))))"
  by (simp add: get_or_create_label_names)

text \<open>
  C7. The claim is that each call moves the label up in the order of \<open>get_all_labels\<close>.
  Two labels are created in the evening of a machine eight hours behind UTC; \<open>email\<close>, the
  later one, comes first. A second call for \<open>email\<close> returns the same id and writes the
  local time, a text that is smaller than the UTC texts written on creation: \<open>email\<close> is
  now last.
\<close>

theorem label_use_lowers_recency:
  "get_all_labels labels_2 = [''email'', ''coding''] \<and>
   snd (get_or_create_label labels_1 ''email'' (evening ''10'')) = 2 \<and>
   snd (get_or_create_label labels_2 ''email'' (evening ''20'')) = 2 \<and>
   map (\<lambda>r. (label_name r, last_used r)) (labels labels_2)
     = [(''coding'', ''2024-01-02 03:00:00''), (''email'', ''2024-01-02 03:00:10'')] \<and>
   map (\<lambda>r. (label_name r, last_used r)) (labels labels_3)
     = [(''coding'', ''2024-01-02 03:00:00''), (''email'', ''2024-01-01T19:00:20.000100'')] \<and>
   text_less ''2024-01-01T19:00:20.000100'' ''2024-01-02 03:00:10'' \<and>
   get_all_labels labels_3 = [''coding'', ''email'']"
proof -
  have l1: "labels_1 = (create_tables None)\<lparr>labels :=
      [\<lparr>label_id = 1, label_name = ''coding'', last_used = ''2024-01-02 03:00:00''\<rparr>]\<rparr>"
    by (simp add: labels_1_def get_or_create_label_def create_tables_def evening_def next_id_def
          Let_def)
  have l2: "labels_2 = (create_tables None)\<lparr>labels :=
      [\<lparr>label_id = 1, label_name = ''coding'', last_used = ''2024-01-02 03:00:00''\<rparr>,
       \<lparr>label_id = 2, label_name = ''email'', last_used = ''2024-01-02 03:00:10''\<rparr>]\<rparr>"
    unfolding labels_2_def l1
    by (simp add: get_or_create_label_def create_tables_def evening_def next_id_def Let_def)
  have i2: "snd (get_or_create_label labels_1 ''email'' (evening ''10'')) = 2"
    unfolding l1
    by (simp add: get_or_create_label_def create_tables_def evening_def next_id_def Let_def)
  have l3: "labels_3 = (create_tables None)\<lparr>labels :=
      [\<lparr>label_id = 1, label_name = ''coding'', last_used = ''2024-01-02 03:00:00''\<rparr>,
       \<lparr>label_id = 2, label_name = ''email'', last_used = ''2024-01-01T19:00:20.000100''\<rparr>]\<rparr>"
    unfolding labels_3_def l2
    by (simp add: get_or_create_label_def create_tables_def evening_def next_id_def Let_def)
  have i3: "snd (get_or_create_label labels_2 ''email'' (evening ''20'')) = 2"
    unfolding l2
    by (simp add: get_or_create_label_def create_tables_def evening_def next_id_def Let_def)
  have t: "text_less ''2024-01-01T19:00:20.000100'' ''2024-01-02 03:00:10''"
    by simp
  have o2: "get_all_labels labels_2 = [''email'', ''coding'']"
    unfolding l2 by (simp add: get_all_labels_def order_by_last_used_desc_def create_tables_def)
  have o3: "get_all_labels labels_3 = [''coding'', ''email'']"
    unfolding l3 by (simp add: get_all_labels_def order_by_last_used_desc_def create_tables_def)
  show ?thesis
    using i2 i3 t o2 o3 unfolding l2 l3 by (simp add: create_tables_def)
qed

subsection \<open>Consecutive rollups\<close>





























end
